theory Spec2Isabelle
  imports Complex_Main "HOL-Library.AList"
begin

section \<open>Python values and string operations\<close>

text \<open>
  Both scripts test values with Python's truthiness (\<^verbatim>\<open>if genre:\<close>, \<^verbatim>\<open>not year\<close>,
  \<^verbatim>\<open>if recording_json:\<close>): \<^verbatim>\<open>None\<close>, the empty string and the integer 0 are false,
  every other string or integer is true. A nullable TEXT column is a \<open>string option\<close>,
  a nullable INTEGER column an \<open>int option\<close>.
\<close>

definition truthy_str :: "string option \<Rightarrow> bool" where
  "truthy_str v = (case v of None \<Rightarrow> False | Some s \<Rightarrow> s \<noteq> [])"

definition truthy_int :: "int option \<Rightarrow> bool" where
  "truthy_int v = (case v of None \<Rightarrow> False | Some n \<Rightarrow> n \<noteq> 0)"

text \<open>
  The exceptions the two scripts can meet. \<open>MusicBrainzError\<close> stands for whatever the
  lookup library raises (network failure, unknown identifier, malformed response);
  \<open>SystemExit\<close> is \<^verbatim>\<open>sys.exit(1)\<close>.
\<close>

datatype error =
    OperationalError | IntegrityError | KeyError | ValueError | TypeError | IndexError
  | UnicodeDecodeError | OverflowError | ID3Error | MusicBrainzError | SystemExit int

text \<open>
  \<^verbatim>\<open>str.lower()\<close>. A Python text is kept as the bytes of its UTF-8 encoding. The
  ASCII capitals are mapped to their small letters; the Kelvin sign U+212A becomes \<open>k\<close>
  and the capital I with a dot above, U+0130, becomes \<open>i\<close> followed by a combining dot:
  these two are the only characters outside ASCII whose lower case has an ASCII
  character. Every other byte is left as it is. (Python lowers the other capitals
  outside ASCII to characters outside ASCII; the program compares lowered texts with
  ASCII literals, or keeps their ASCII letters and digits only, so of those bytes only
  the fact that they are not ASCII counts.)
\<close>

definition lower_char :: "char \<Rightarrow> char" where
  "lower_char c =
     (case map_of (zip ''ABCDEFGHIJKLMNOPQRSTUVWXYZ'' ''abcdefghijklmnopqrstuvwxyz'') c of
        None \<Rightarrow> c
      | Some l \<Rightarrow> l)"

definition kelvin_sign :: string where
  "kelvin_sign = [CHR 0xE2, CHR 0x84, CHR 0xAA]"

definition capital_i_dot :: string where
  "capital_i_dot = [CHR 0xC4, CHR 0xB0]"

definition combining_dot :: string where
  "combining_dot = [CHR 0xCC, CHR 0x87]"

fun lower :: "string \<Rightarrow> string" where
  "lower [] = []"
| "lower (c # cs) =
     (if take 3 (c # cs) = kelvin_sign then CHR ''k'' # lower (drop 2 cs)
      else if take 2 (c # cs) = capital_i_dot then CHR ''i'' # combining_dot @ lower (drop 1 cs)
      else lower_char c # lower cs)"

text \<open>\<^verbatim>\<open>needle in hay\<close> on strings: \<open>needle\<close> occurs as a contiguous substring.\<close>

fun str_in :: "string \<Rightarrow> string \<Rightarrow> bool" where
  "str_in needle [] = (needle = [])"
| "str_in needle (c # cs) = (take (length needle) (c # cs) = needle \<or> str_in needle cs)"

definition endswith :: "string \<Rightarrow> string \<Rightarrow> bool" where
  "endswith s suffix =
     (length suffix \<le> length s \<and> drop (length s - length suffix) s = suffix)"

text \<open>\<^verbatim>\<open>s.split(sep)[0]\<close> and \<^verbatim>\<open>s.split(sep)[-1]\<close> for a one-character separator.\<close>

definition split_first :: "char \<Rightarrow> string \<Rightarrow> string" where
  "split_first sep s = takeWhile (\<lambda>c. c \<noteq> sep) s"

definition split_last :: "char \<Rightarrow> string \<Rightarrow> string" where
  "split_last sep s = rev (takeWhile (\<lambda>c. c \<noteq> sep) (rev s))"

text \<open>\<^verbatim>\<open>sep.join(parts)\<close>.\<close>

fun join :: "string \<Rightarrow> string list \<Rightarrow> string" where
  "join sep [] = []"
| "join sep [p] = p"
| "join sep (p # q # ps) = p @ sep @ join sep (q # ps)"

text \<open>
  The integers SQLite stores and binds are those of 64 bits; binding another Python
  integer to a statement raises OverflowError.
\<close>

definition int64 :: "int \<Rightarrow> bool" where
  "int64 n = (- (2 ^ 63) \<le> n \<and> n < 2 ^ 63)"

text \<open>\<^verbatim>\<open>str(n)\<close> for an integer, as the f-strings render a year.\<close>

definition digit_char :: "nat \<Rightarrow> char" where
  "digit_char d = ''0123456789'' ! d"

fun str_nat :: "nat \<Rightarrow> string" where
  "str_nat n = (if n < 10 then [digit_char n] else str_nat (n div 10) @ [digit_char (n mod 10)])"

declare str_nat.simps [simp del]

definition str_int :: "int \<Rightarrow> string" where
  "str_int i = (if i < 0 then CHR ''-'' # str_nat (nat (- i)) else str_nat (nat i))"

section \<open>The metadata store\<close>

text \<open>
  The two tables of \<^verbatim>\<open>create_db\<close>. A table is the list of its rows in insertion order,
  each with its primary key; \<^verbatim>\<open>SELECT ... WHERE key = ?\<close> followed by \<^verbatim>\<open>fetchone()\<close> is
  \<open>map_of\<close>. The embedding column holds the JSON text of a list of numbers; it is
  modelled by the list itself, so a stored embedding is always well-formed and non-empty
  as a text.
\<close>

record track =
  track_mbid :: "string option"
  artist_mbid :: "string option"
  release_group_mbid :: "string option"
  genre :: "string option"
  year :: "int option"
  album_type :: "string option"
  embedding :: "real list option"

text \<open>
  A row of \<^verbatim>\<open>mbid_cache\<close>. Which columns the table really has is the field
  \<open>cache_columns\<close> of the database: a statement that names a column the table lacks
  raises \<^verbatim>\<open>sqlite3.OperationalError\<close>.
\<close>

record cache_entry =
  cached_genre :: "string option"
  cached_year :: "int option"
  cached_album_type :: "string option"
  recording_json :: "string option"

record database =
  tracks :: "(string \<times> track) list"
  cache_columns :: "string list"
  mbid_cache :: "(string \<times> cache_entry) list"

text \<open>
  What a run adds to the database: the process-wide diagnostics counters, the calls made
  to the remote lookup service, the SQL write statements executed and the lines printed.
\<close>

record diagnostics =
  missing_genre :: nat
  missing_year :: nat
  missing_album_type :: nat

datatype remote_call = RecordingLookup string | ArtistLookup string

datatype sql_write = InsertTrack string | UpdateTrack string | UpsertCache string

datatype status_flag =
    MetadataUpdated "string option" "int option" "string option"
  | NoNewMetadata
  | ExistingComplete
  | NewAdded "string option" "int option" "string option"

datatype event =
    TagReadFailed string
  | QueryFailed string
  | Resolved "string option" "int option" "string option"
  | FileStatus string "status_flag list"

record state = database +
  diag :: diagnostics
  remote_log :: "remote_call list"
  sql_writes :: "sql_write list"
  printed :: "event list"

text \<open>
  \<^verbatim>\<open>create_db\<close>: both statements are \<^verbatim>\<open>CREATE TABLE IF NOT EXISTS\<close>. On a new database
  file (\<open>None\<close>) the tables are created empty with the columns the statements list; the
  tables of an existing database are left as they are.
\<close>

definition create_db :: "database option \<Rightarrow> database" where
  "create_db existing =
     (case existing of
        None \<Rightarrow>
          \<lparr>tracks = [],
           cache_columns = [''track_mbid'', ''genre'', ''year'', ''album_type''],
           mbid_cache = []\<rparr>
      | Some d \<Rightarrow> d)"

text \<open>A fresh process on a database: counters at zero, nothing called, nothing printed.\<close>

definition connect :: "database \<Rightarrow> state" where
  "connect d =
     database.extend d
       \<lparr>diag = \<lparr>missing_genre = 0, missing_year = 0, missing_album_type = 0\<rparr>,
        remote_log = [], sql_writes = [], printed = []\<rparr>"

section \<open>The collaborators\<close>

text \<open>
  What the lookup service returns for a recording, with the keys the code reads. A key
  the code reads with \<^verbatim>\<open>.get\<close> or tests with \<^verbatim>\<open>in\<close> is optional; \<^verbatim>\<open>tag["name"]\<close> and
  \<^verbatim>\<open>credit["artist"]["id"]\<close> raise KeyError when the key is absent. An element of the
  artist credit is a dictionary or a join phrase (a plain string).
\<close>

record mb_tag =
  tag_name :: "string option"
  tag_count :: "string option"

record release_group =
  rg_tag_list :: "mb_tag list"
  primary_type :: "string option"

record release =
  rel_release_group :: "release_group option"
  rel_date :: "string option"
  release_event_list :: "string option list"
  rel_status :: "string option"
  rel_title :: "string option"

datatype credit = JoinPhrase string | NameCredit "string option option"

record recording =
  tag_list :: "mb_tag list"
  release_list :: "release list"
  artist_credit :: "credit list"

text \<open>The ID3 frames \<^verbatim>\<open>get_mbids\<close> reads: UFID (owner, data) and TXXX (desc, text).\<close>

record id3 =
  ufid_frames :: "(string \<times> string) list"
  txxx_frames :: "(string \<times> string list) list"

text \<open>
  The world outside the program. The remote service may answer differently each time:
  its answer is a function of the calls made so far and of the identifier asked for.
  \<open>json_members\<close> renders the members of the recording dictionary for \<^verbatim>\<open>json.dumps\<close>.
  \<open>py_int\<close> is the interpreter's \<^verbatim>\<open>int(s)\<close> on a text, with its own rules for
  whitespace, signs, underscores and the decimal digits of every script; it is \<open>None\<close>
  where \<^verbatim>\<open>int\<close> raises ValueError.
\<close>

record world =
  read_id3 :: "string \<Rightarrow> error + id3"
  get_recording_by_id :: "remote_call list \<Rightarrow> string \<Rightarrow> error + recording"
  get_artist_by_id :: "remote_call list \<Rightarrow> string \<Rightarrow> error + mb_tag list"
  json_members :: "recording \<Rightarrow> string"
  py_int :: "string \<Rightarrow> int option"

text \<open>\<^verbatim>\<open>json.dumps\<close> of a dictionary is an object in braces, whatever its members.\<close>

definition json_dumps :: "world \<Rightarrow> recording \<Rightarrow> string" where
  "json_dumps w r = ''{'' @ json_members w r @ ''}''"

section \<open>build\_db: tag reading\<close>

text \<open>
  \<^verbatim>\<open>get_mbids\<close>. \<^verbatim>\<open>ufid.data.decode("ascii")\<close> raises on a byte above 127 and
  \<^verbatim>\<open>tag.text[0]\<close> on an empty text list; every exception of the body is caught, printed
  and answered by three \<^verbatim>\<open>None\<close>.
\<close>

definition decode_ascii :: "string \<Rightarrow> error + string" where
  "decode_ascii bytes = (if list_ex digit7 bytes then Inl UnicodeDecodeError else Inr bytes)"

definition first_text :: "string list \<Rightarrow> error + string" where
  "first_text txt = (case txt of [] \<Rightarrow> Inl IndexError | t # _ \<Rightarrow> Inr t)"

type_synonym mbids = "string option \<times> string option \<times> string option"

fun txxx_loop :: "(string \<times> string list) list \<Rightarrow> mbids \<Rightarrow> error + mbids" where
  "txxx_loop [] ids = Inr ids"
| "txxx_loop ((desc, txt) # frames) (t, a, rg) =
     (if lower desc = ''musicbrainz track id'' \<and> \<not> truthy_str t then
        (case first_text txt of Inl e \<Rightarrow> Inl e | Inr v \<Rightarrow> txxx_loop frames (Some v, a, rg))
      else if lower desc = ''musicbrainz artist id'' then
        (case first_text txt of Inl e \<Rightarrow> Inl e | Inr v \<Rightarrow> txxx_loop frames (t, Some v, rg))
      else if lower desc = ''musicbrainz release group id'' then
        (case first_text txt of Inl e \<Rightarrow> Inl e | Inr v \<Rightarrow> txxx_loop frames (t, a, Some v))
      else txxx_loop frames (t, a, rg))"

definition read_mbids :: "world \<Rightarrow> string \<Rightarrow> error + mbids" where
  "read_mbids w file_path =
     (case read_id3 w file_path of
        Inl e \<Rightarrow> Inl e
      | Inr frames \<Rightarrow>
          (case find (\<lambda>(owner, data). owner = ''http://musicbrainz.org'') (ufid_frames frames) of
             None \<Rightarrow> txxx_loop (txxx_frames frames) (None, None, None)
           | Some (owner, data) \<Rightarrow>
               (case decode_ascii data of
                  Inl e \<Rightarrow> Inl e
                | Inr t \<Rightarrow> txxx_loop (txxx_frames frames) (Some t, None, None))))"

definition get_mbids :: "world \<Rightarrow> string \<Rightarrow> state \<Rightarrow> mbids \<times> state" where
  "get_mbids w file_path s =
     (case read_mbids w file_path of
        Inl e \<Rightarrow> ((None, None, None), s\<lparr>printed := printed s @ [TagReadFailed file_path]\<rparr>)
      | Inr ids \<Rightarrow> (ids, s))"

section \<open>build\_db: aggregation of a lookup result\<close>

text \<open>
  A Python dictionary of counts keeps its keys in insertion order: an association list,
  updated in place or extended at the end. \<^verbatim>\<open>max(d, key=d.get)\<close> is the first key with
  the greatest count.
\<close>

type_synonym counts = "(string \<times> int) list"

definition bump :: "string \<Rightarrow> int \<Rightarrow> counts \<Rightarrow> counts" where
  "bump k n cs = AList.update k ((case map_of cs k of None \<Rightarrow> 0 | Some v \<Rightarrow> v) + n) cs"

fun max_from :: "string \<times> int \<Rightarrow> counts \<Rightarrow> string" where
  "max_from (k, v) [] = k"
| "max_from (k, v) ((k', v') # rest) =
     (if v < v' then max_from (k', v') rest else max_from (k, v) rest)"

definition max_key :: "counts \<Rightarrow> string option" where
  "max_key cs = (case cs of [] \<Rightarrow> None | p # rest \<Rightarrow> Some (max_from p rest))"

text \<open>
  One pass over a tag list. The first component is the exception that stopped the pass,
  if any; the counts added before it stay in the dictionary, which matters for the
  artist fallback, where the exception is swallowed.
\<close>

fun add_tags :: "world \<Rightarrow> mb_tag list \<Rightarrow> counts \<Rightarrow> error option \<times> counts" where
  "add_tags w [] cs = (None, cs)"
| "add_tags w (t # ts) cs =
     (case (case tag_count t of None \<Rightarrow> Some 1 | Some c \<Rightarrow> py_int w c) of
        None \<Rightarrow> (Some ValueError, cs)
      | Some n \<Rightarrow>
          (case tag_name t of
             None \<Rightarrow> (Some KeyError, cs)
           | Some name \<Rightarrow> add_tags w ts (bump name n cs)))"

fun add_release_tags :: "world \<Rightarrow> release list \<Rightarrow> counts \<Rightarrow> error option \<times> counts" where
  "add_release_tags w [] cs = (None, cs)"
| "add_release_tags w (r # rs) cs =
     (case rel_release_group r of
        None \<Rightarrow> add_release_tags w rs cs
      | Some g \<Rightarrow>
          (case add_tags w (rg_tag_list g) cs of
             (Some e, cs') \<Rightarrow> (Some e, cs')
           | (None, cs') \<Rightarrow> add_release_tags w rs cs'))"

text \<open>
  The artist fallback. \<^verbatim>\<open>"artist" in credit\<close> on a join phrase is a substring test, and
  \<^verbatim>\<open>credit["artist"]\<close> on a string raises TypeError. The lookup of the artist and the
  pass over its tags stand in a \<^verbatim>\<open>try\<close> with a bare \<^verbatim>\<open>except: pass\<close>.
\<close>

fun artist_fallback ::
  "world \<Rightarrow> credit list \<Rightarrow> counts \<Rightarrow> remote_call list \<Rightarrow> error option \<times> counts \<times> remote_call list"
where
  "artist_fallback w [] cs calls = (None, cs, calls)"
| "artist_fallback w (JoinPhrase p # credits) cs calls =
     (if str_in ''artist'' p then (Some TypeError, cs, calls)
      else artist_fallback w credits cs calls)"
| "artist_fallback w (NameCredit None # credits) cs calls = artist_fallback w credits cs calls"
| "artist_fallback w (NameCredit (Some None) # credits) cs calls = (Some KeyError, cs, calls)"
| "artist_fallback w (NameCredit (Some (Some artist_id)) # credits) cs calls =
     (case get_artist_by_id w calls artist_id of
        Inl e \<Rightarrow> artist_fallback w credits cs (calls @ [ArtistLookup artist_id])
      | Inr tags \<Rightarrow>
          artist_fallback w credits (snd (add_tags w tags cs)) (calls @ [ArtistLookup artist_id]))"

text \<open>The year: the least leading number of the release dates that parse.\<close>

definition release_date :: "release \<Rightarrow> string option" where
  "release_date r =
     (if truthy_str (rel_date r) then rel_date r
      else case release_event_list r of [] \<Rightarrow> rel_date r | e # _ \<Rightarrow> e)"

definition release_years :: "world \<Rightarrow> release list \<Rightarrow> int list" where
  "release_years w rs =
     List.map_filter
       (\<lambda>r. case release_date r of
              None \<Rightarrow> None
            | Some d \<Rightarrow> if d = [] then None else py_int w (split_first CHR ''-'' d))
       rs"

definition min_year :: "int list \<Rightarrow> int option" where
  "min_year ys = (case ys of [] \<Rightarrow> None | y # rest \<Rightarrow> Some (fold min rest y))"

text \<open>The album type: primary type by majority, else status by majority, else a title keyword.\<close>

definition count_values :: "string option list \<Rightarrow> counts" where
  "count_values vs =
     fold (\<lambda>v cs. case v of None \<Rightarrow> cs | Some x \<Rightarrow> if x = [] then cs else bump x 1 cs) vs []"

definition primary_types :: "release list \<Rightarrow> string option list" where
  "primary_types rs =
     concat (map (\<lambda>r. case rel_release_group r of None \<Rightarrow> [] | Some g \<Rightarrow> [primary_type g]) rs)"

fun title_scan :: "release list \<Rightarrow> string option" where
  "title_scan [] = None"
| "title_scan (r # rs) =
     (let title = lower (case rel_title r of None \<Rightarrow> [] | Some t \<Rightarrow> t) in
      if str_in ''compilation'' title \<or> str_in ''hits'' title then Some ''Compilation''
      else if str_in ''deluxe'' title then Some ''Deluxe''
      else if str_in ''soundtrack'' title then Some ''Soundtrack''
      else if str_in ''live'' title then Some ''Live''
      else title_scan rs)"

definition resolve_album_type :: "release list \<Rightarrow> string option" where
  "resolve_album_type rs =
     (let by_type = max_key (count_values (primary_types rs)) in
      if truthy_str by_type then by_type
      else
        let status_counts = count_values (map rel_status rs);
            by_status = (if status_counts = [] then by_type else max_key status_counts)
        in if truthy_str by_status then by_status
           else case title_scan rs of None \<Rightarrow> by_status | Some t \<Rightarrow> Some t)"

text \<open>
  The body of the \<^verbatim>\<open>try\<close> between the lookup and the diagnostics: the three fields, or
  the exception that ends the body, with the artist lookups made on the way.
\<close>

type_synonym fields = "string option \<times> int option \<times> string option"

definition aggregate ::
  "world \<Rightarrow> recording \<Rightarrow> remote_call list \<Rightarrow> (error + fields) \<times> remote_call list"
where
  "aggregate w r calls =
     (case add_tags w (tag_list r) [] of
        (Some e, cs) \<Rightarrow> (Inl e, calls)
      | (None, cs) \<Rightarrow>
          (case add_release_tags w (release_list r) cs of
             (Some e, cs') \<Rightarrow> (Inl e, calls)
           | (None, cs') \<Rightarrow>
               (case (if cs' = [] then artist_fallback w (artist_credit r) cs' calls
                      else (None, cs', calls)) of
                  (Some e, cs'', calls') \<Rightarrow> (Inl e, calls')
                | (None, cs'', calls') \<Rightarrow>
                    (Inr (max_key cs'',
                          min_year (release_years w (release_list r)),
                          resolve_album_type (release_list r)),
                     calls'))))"

section \<open>build\_db: the cached lookup\<close>

text \<open>
  \<^verbatim>\<open>query_musicbrainz\<close>. The SELECT on the cache stands before the \<^verbatim>\<open>try\<close>: an exception
  it raises leaves the function. Everything from the remote call to the return stands
  inside the \<^verbatim>\<open>try\<close>, whose handler prints the failure and returns three \<^verbatim>\<open>None\<close>;
  that includes the INSERT into the cache, which raises on a table without one of its
  columns and on a year that does not fit 64 bits. (The integers a table holds fit 64
  bits, so the statements that write a stored year back have no such case.)
  The pacing delay \<^verbatim>\<open>time.sleep(1)\<close> has no counterpart here.
\<close>

definition select_columns :: "string list" where
  "select_columns = [''genre'', ''year'', ''album_type'', ''recording_json'', ''track_mbid'']"

definition insert_columns :: "string list" where
  "insert_columns = [''track_mbid'', ''genre'', ''year'', ''album_type'', ''recording_json'']"

definition count_missing :: "fields \<Rightarrow> diagnostics \<Rightarrow> diagnostics" where
  "count_missing f d =
     (case f of (g, y, t) \<Rightarrow>
        \<lparr>missing_genre = (if truthy_str g then missing_genre d else missing_genre d + 1),
         missing_year = (if truthy_int y then missing_year d else missing_year d + 1),
         missing_album_type =
           (if truthy_str t then missing_album_type d else missing_album_type d + 1)\<rparr>)"

definition query_failed :: "string \<Rightarrow> state \<Rightarrow> fields \<times> state" where
  "query_failed mbid s = ((None, None, None), s\<lparr>printed := printed s @ [QueryFailed mbid]\<rparr>)"

definition fresh_lookup :: "world \<Rightarrow> string \<Rightarrow> state \<Rightarrow> fields \<times> state" where
  "fresh_lookup w mbid s =
     (let s1 = s\<lparr>remote_log := remote_log s @ [RecordingLookup mbid]\<rparr> in
      case get_recording_by_id w (remote_log s) mbid of
        Inl e \<Rightarrow> query_failed mbid s1
      | Inr r \<Rightarrow>
          (case aggregate w r (remote_log s1) of
             (Inl e, calls) \<Rightarrow> query_failed mbid (s1\<lparr>remote_log := calls\<rparr>)
           | (Inr (g, y, t), calls) \<Rightarrow>
               let s2 = s1\<lparr>remote_log := calls, diag := count_missing (g, y, t) (diag s1)\<rparr> in
               if \<not> set insert_columns \<subseteq> set (cache_columns s2) then query_failed mbid s2
               else if \<not> (case y of None \<Rightarrow> True | Some n \<Rightarrow> int64 n) then query_failed mbid s2
               else
                 ((g, y, t),
                  s2\<lparr>mbid_cache :=
                        AList.update mbid
                          \<lparr>cached_genre = g, cached_year = y, cached_album_type = t,
                           recording_json = Some (json_dumps w r)\<rparr>
                          (mbid_cache s2),
                      sql_writes := sql_writes s2 @ [UpsertCache mbid],
                      printed := printed s2 @ [Resolved g y t]\<rparr>)))"

definition query_musicbrainz :: "world \<Rightarrow> string \<Rightarrow> state \<Rightarrow> error + fields \<times> state" where
  "query_musicbrainz w mbid s =
     (if \<not> set select_columns \<subseteq> set (cache_columns s) then Inl OperationalError
      else
        case map_of (mbid_cache s) mbid of
          None \<Rightarrow> Inr (fresh_lookup w mbid s)
        | Some row \<Rightarrow>
            if truthy_str (recording_json row)
            then Inr ((cached_genre row, cached_year row, cached_album_type row), s)
            else Inr (fresh_lookup w mbid s))"

section \<open>build\_db: the descriptor\<close>

text \<open>\<^verbatim>\<open>generate_metadata_string\<close>: the fields that are true, in the order of the source.\<close>

definition generate_metadata_string ::
  "string option \<Rightarrow> string option \<Rightarrow> string option \<Rightarrow> int option \<Rightarrow> string option \<Rightarrow> string"
where
  "generate_metadata_string artist title g y t =
     join ''; ''
       ((case artist of None \<Rightarrow> [] | Some v \<Rightarrow> if v = [] then [] else [''artist: '' @ v]) @
        (case title of None \<Rightarrow> [] | Some v \<Rightarrow> if v = [] then [] else [''title: '' @ v]) @
        (case g of None \<Rightarrow> [] | Some v \<Rightarrow> if v = [] then [] else [''genre: '' @ v]) @
        (case y of None \<Rightarrow> [] | Some n \<Rightarrow> if n = 0 then [] else [''year: '' @ str_int n]) @
        (case t of None \<Rightarrow> [] | Some v \<Rightarrow> if v = [] then [] else [''album_type: '' @ v]))"

section \<open>build\_db: the ingestion driver\<close>

text \<open>
  \<^verbatim>\<open>UPDATE tracks SET genre = ?, year = ?, album_type = ? WHERE file_path = ?\<close> and
  \<^verbatim>\<open>INSERT INTO tracks (file_path, track_mbid, artist_mbid, release_group_mbid, genre, year,
  album_type)\<close>: the insert names no embedding, so the new row's embedding is NULL; an
  insert on a path that has a row violates the primary key.
\<close>

definition update_track :: "string \<Rightarrow> fields \<Rightarrow> (string \<times> track) list \<Rightarrow> (string \<times> track) list" where
  "update_track file_path f tbl =
     (case f of (g, y, t) \<Rightarrow>
        map (\<lambda>(k, row). if k = file_path
                          then (k, row\<lparr>genre := g, year := y, album_type := t\<rparr>)
                          else (k, row))
            tbl)"

definition insert_track ::
  "string \<Rightarrow> mbids \<Rightarrow> fields \<Rightarrow> (string \<times> track) list \<Rightarrow> error + (string \<times> track) list"
where
  "insert_track file_path ids f tbl =
     (case (ids, f) of ((mbid, a, rg), (g, y, t)) \<Rightarrow>
        if file_path \<in> fst ` set tbl then Inl IntegrityError
        else Inr (tbl @ [(file_path,
                          \<lparr>track_mbid = mbid, artist_mbid = a, release_group_mbid = rg,
                           genre = g, year = y, album_type = t, embedding = None\<rparr>)]))"

text \<open>
  \<^verbatim>\<open>process_file\<close>. The dictionary \<^verbatim>\<open>updates\<close> is the triple \<open>(ug, uy, ut)\<close> of its optional
  entries; \<^verbatim>\<open>updates.get("genre", genre)\<close> is the entry, or the row's value without one.
  The identifier handed to the lookup is true where \<open>the\<close> reads it.
\<close>

definition needs_lookup :: "track \<Rightarrow> bool" where
  "needs_lookup row =
     (truthy_str (track_mbid row) \<and>
      (\<not> truthy_str (genre row) \<or> \<not> truthy_int (year row) \<or> \<not> truthy_str (album_type row)))"

definition process_file :: "world \<Rightarrow> string \<Rightarrow> state \<Rightarrow> error + state" where
  "process_file w file_path s =
     (case map_of (tracks s) file_path of
        Some row \<Rightarrow>
          if needs_lookup row then
            (case query_musicbrainz w (the (track_mbid row)) s of
               Inl e \<Rightarrow> Inl e
             | Inr ((g, y, t), s1) \<Rightarrow>
                 let ug = (if truthy_str g \<and> \<not> truthy_str (genre row) then g else None);
                     uy = (if truthy_int y \<and> \<not> truthy_int (year row) then y else None);
                     ut = (if truthy_str t \<and> \<not> truthy_str (album_type row) then t else None)
                 in
                   if ug \<noteq> None \<or> uy \<noteq> None \<or> ut \<noteq> None then
                     Inr (s1\<lparr>tracks :=
                               update_track file_path
                                 (case ug of None \<Rightarrow> genre row | Some v \<Rightarrow> Some v,
                                  case uy of None \<Rightarrow> year row | Some v \<Rightarrow> Some v,
                                  case ut of None \<Rightarrow> album_type row | Some v \<Rightarrow> Some v)
                                 (tracks s1),
                             sql_writes := sql_writes s1 @ [UpdateTrack file_path],
                             printed := printed s1 @ [FileStatus file_path [MetadataUpdated ug uy ut]]\<rparr>)
                   else
                     Inr (s1\<lparr>printed := printed s1 @ [FileStatus file_path [NoNewMetadata]]\<rparr>))
          else Inr (s\<lparr>printed := printed s @ [FileStatus file_path [ExistingComplete]]\<rparr>)
      | None \<Rightarrow>
          (case get_mbids w file_path s of
             ((mbid, a, rg), s1) \<Rightarrow>
               (case (if truthy_str mbid then query_musicbrainz w (the mbid) s1
                      else Inr ((None, None, None), s1)) of
                  Inl e \<Rightarrow> Inl e
                | Inr ((g, y, t), s2) \<Rightarrow>
                    (case insert_track file_path (mbid, a, rg) (g, y, t) (tracks s2) of
                       Inl e \<Rightarrow> Inl e
                     | Inr tbl \<Rightarrow>
                         Inr (s2\<lparr>tracks := tbl,
                                 sql_writes := sql_writes s2 @ [InsertTrack file_path],
                                 printed := printed s2 @ [FileStatus file_path [NewAdded g y t]]\<rparr>)))))"

text \<open>
  \<^verbatim>\<open>walk_and_process\<close> over the result of \<^verbatim>\<open>os.walk\<close>, a list of directories each with
  its file names: the files whose lowered name ends in \<^verbatim>\<open>.mp3\<close>, in order; an exception
  of \<^verbatim>\<open>process_file\<close> ends the walk.
\<close>

definition path_join :: "string \<Rightarrow> string \<Rightarrow> string" where
  "path_join dirpath file =
     (if file \<noteq> [] \<and> hd file = CHR ''/'' then file
      else if dirpath = [] \<or> last dirpath = CHR ''/'' then dirpath @ file
      else dirpath @ ''/'' @ file)"

definition mp3_paths :: "(string \<times> string list) list \<Rightarrow> string list" where
  "mp3_paths listing =
     concat (map (\<lambda>(dirpath, files).
                    map (path_join dirpath) (filter (\<lambda>f. endswith (lower f) ''.mp3'') files))
                 listing)"

fun process_all :: "world \<Rightarrow> string list \<Rightarrow> state \<Rightarrow> error + state" where
  "process_all w [] s = Inr s"
| "process_all w (p # ps) s =
     (case process_file w p s of Inl e \<Rightarrow> Inl e | Inr s' \<Rightarrow> process_all w ps s')"

definition walk_and_process :: "world \<Rightarrow> (string \<times> string list) list \<Rightarrow> state \<Rightarrow> error + state" where
  "walk_and_process w listing s = process_all w (mp3_paths listing) s"

text \<open>\<^verbatim>\<open>main\<close> of build\_db, after the arguments are read: open the database, walk.\<close>

definition build_db_main ::
  "world \<Rightarrow> (string \<times> string list) list \<Rightarrow> database option \<Rightarrow> error + state"
where
  "build_db_main w listing existing = walk_and_process w listing (connect (create_db existing))"

section \<open>nexttrack: strings and distances\<close>

definition normalize_string :: "string \<Rightarrow> string" where
  "normalize_string s =
     filter (\<lambda>c. c \<in> set ''abcdefghijklmnopqrstuvwxyz0123456789'') (lower s)"

text \<open>
  \<^verbatim>\<open>re.sub(r'\.mp3$', '', name, flags=re.IGNORECASE)\<close>: \<^verbatim>\<open>$\<close> matches at the end of the
  string and also just before a newline that ends it. Ignoring case, the letters
  \<^verbatim>\<open>m\<close> and \<^verbatim>\<open>p\<close> match their capitals and nothing else.
\<close>

definition strip_mp3 :: "string \<Rightarrow> string" where
  "strip_mp3 name =
     (if endswith (map lower_char name) ''.mp3'' then take (length name - 4) name
      else if endswith (map lower_char name) (''.mp3'' @ [CHR 0x0A])
      then take (length name - 5) name @ [CHR 0x0A]
      else name)"

text \<open>
  A float is a double: the real number it stands for, an infinity or NaN. Comparison
  and absolute value are exact; every comparison with NaN is false.
\<close>

datatype pyfloat = Finite real | PosInf | NegInf | NaN

fun float_less :: "pyfloat \<Rightarrow> pyfloat \<Rightarrow> bool" where
  "float_less (Finite x) (Finite y) = (x < y)"
| "float_less (Finite x) PosInf = True"
| "float_less NegInf (Finite y) = True"
| "float_less NegInf PosInf = True"
| "float_less a b = False"

fun float_abs :: "pyfloat \<Rightarrow> pyfloat" where
  "float_abs (Finite x) = Finite \<bar>x\<bar>"
| "float_abs PosInf = PosInf"
| "float_abs NegInf = PosInf"
| "float_abs NaN = NaN"

text \<open>
  The literals \<^verbatim>\<open>0.001\<close> and \<^verbatim>\<open>1e-6\<close> are the doubles nearest to them, written
  here as fractions.
\<close>

definition DISTANCE_THRESHOLD :: pyfloat where
  "DISTANCE_THRESHOLD = Finite (1152921504606847 / 1152921504606846976)"

definition EPSILON :: pyfloat where
  "EPSILON = Finite (4722366482869645 / 4722366482869645213696)"

text \<open>
  The arithmetic on doubles rounds, and numpy sums in an order of its own: the
  operations that \<^verbatim>\<open>cosine_distance\<close> and the tie test use are parameters. \<^verbatim>\<open>np.dot\<close>
  raises ValueError on vectors of different lengths.
\<close>

record numpy =
  np_dot :: "real list \<Rightarrow> real list \<Rightarrow> error + pyfloat"
  np_norm :: "real list \<Rightarrow> pyfloat"
  float_mul :: "pyfloat \<Rightarrow> pyfloat \<Rightarrow> pyfloat"
  float_div :: "pyfloat \<Rightarrow> pyfloat \<Rightarrow> pyfloat"
  float_sub :: "pyfloat \<Rightarrow> pyfloat \<Rightarrow> pyfloat"

definition cosine_distance :: "numpy \<Rightarrow> real list \<Rightarrow> real list \<Rightarrow> error + pyfloat" where
  "cosine_distance np a b =
     (case np_dot np a b of
        Inl e \<Rightarrow> Inl e
      | Inr d \<Rightarrow>
          Inr (float_sub np (Finite 1)
                 (float_div np d (float_mul np (np_norm np a) (np_norm np b)))))"

text \<open>\<^verbatim>\<open>abs(dist - best_dist) < 1e-6\<close>.\<close>

definition float_near :: "numpy \<Rightarrow> pyfloat \<Rightarrow> pyfloat \<Rightarrow> bool" where
  "float_near np a b = float_less (float_abs (float_sub np a b)) EPSILON"

section \<open>nexttrack: the reference track and the candidates\<close>

text \<open>
  The play-history table of the adjacent playback system, by path. Of a row only the
  two columns the script reads and writes are kept.
\<close>

record play_row =
  play_count :: "int option"
  last_played :: "string option"

type_synonym library = "string \<Rightarrow> play_row option"

definition load_input_track ::
  "(string \<times> track) list \<Rightarrow> string \<Rightarrow> error + real list \<times> string option \<times> string"
where
  "load_input_track tbl file_path =
     (case map_of tbl file_path of
        None \<Rightarrow> Inl (SystemExit 1)
      | Some row \<Rightarrow>
          (case embedding row of
             None \<Rightarrow> Inl (SystemExit 1)
           | Some emb \<Rightarrow>
               Inr (emb, track_mbid row, strip_mp3 (split_last CHR ''/'' file_path))))"

text \<open>
  \<^verbatim>\<open>update_play_info\<close>. The UPDATE binds the new count; a count that no longer fits 64
  bits raises OverflowError and the row stays as it was.
\<close>

definition update_play_info :: "string \<Rightarrow> library \<Rightarrow> string \<Rightarrow> error + library" where
  "update_play_info now lib file_path =
     (case lib file_path of
        None \<Rightarrow> Inr lib
      | Some row \<Rightarrow>
          let new_count = (case play_count row of None \<Rightarrow> 0 | Some n \<Rightarrow> n) + 1 in
          if int64 new_count
          then Inr (lib(file_path \<mapsto>
                      row\<lparr>play_count := Some new_count, last_played := Some now\<rparr>))
          else Inl OverflowError)"

type_synonym candidate = "string \<times> real list \<times> string option \<times> string option"

definition load_candidates ::
  "(string \<times> track) list \<Rightarrow> library \<Rightarrow> string \<Rightarrow> string option \<Rightarrow> string \<Rightarrow> candidate list"
where
  "load_candidates tbl lib current_path current_mbid input_title =
     List.map_filter
       (\<lambda>(file_path, row).
          case embedding row of
            None \<Rightarrow> None
          | Some emb \<Rightarrow>
              if file_path = current_path then None
              else if truthy_str current_mbid \<and> track_mbid row = current_mbid then None
              else if str_in (normalize_string input_title)
                             (normalize_string (split_last CHR ''/'' file_path))
              then None
              else Some (file_path, emb, track_mbid row,
                         case lib file_path of None \<Rightarrow> None | Some r \<Rightarrow> last_played r))
       tbl"

section \<open>nexttrack: the selection\<close>

text \<open>
  A \<^verbatim>\<open>datetime\<close> is naive or aware of its offset; either way it is kept as the instant
  it stands for, as a number. Two naive or two aware ones compare by their instants;
  comparing a naive with an aware one raises TypeError.
\<close>

datatype datetime = Naive int | Aware int

fun datetime_less :: "datetime \<Rightarrow> datetime \<Rightarrow> error + bool" where
  "datetime_less (Naive a) (Naive b) = Inr (a < b)"
| "datetime_less (Aware a) (Aware b) = Inr (a < b)"
| "datetime_less a b = Inl TypeError"

text \<open>
  \<^verbatim>\<open>datetime.fromisoformat\<close> is a parameter: the \<^verbatim>\<open>datetime\<close> a text stands for, or
  \<open>None\<close> where it raises. A text that is \<^verbatim>\<open>None\<close> or empty is not parsed.
\<close>

definition parse_last_played ::
  "(string \<Rightarrow> datetime option) \<Rightarrow> string option \<Rightarrow> datetime option"
where
  "parse_last_played fromisoformat lp =
     (case lp of None \<Rightarrow> None | Some txt \<Rightarrow> if txt = [] then None else fromisoformat txt)"

text \<open>
  The loop of \<^verbatim>\<open>select_best_match\<close>. Its state is \<^verbatim>\<open>best\<close>, \<^verbatim>\<open>best_dist\<close> and
  \<^verbatim>\<open>best_last_played\<close>, or \<open>None\<close> while \<^verbatim>\<open>best\<close> is \<^verbatim>\<open>None\<close>. The tie-break branches
  replace \<^verbatim>\<open>best\<close> and \<^verbatim>\<open>best_last_played\<close> and leave \<^verbatim>\<open>best_dist\<close> as it is.
\<close>

type_synonym best = "string \<times> pyfloat \<times> datetime option"

type_synonym selection = "(best \<times> pyfloat \<times> datetime option) option"

fun select_loop ::
  "numpy \<Rightarrow> (string \<Rightarrow> datetime option) \<Rightarrow> real list \<Rightarrow> candidate list \<Rightarrow> selection \<Rightarrow>
   error + selection"
where
  "select_loop np fromisoformat current_emb [] st = Inr st"
| "select_loop np fromisoformat current_emb ((file_path, emb, mbid, lp) # cs) st =
     (case cosine_distance np current_emb emb of
        Inl e \<Rightarrow> Inl e
      | Inr d \<Rightarrow>
          if float_less d DISTANCE_THRESHOLD then select_loop np fromisoformat current_emb cs st
          else
            let last_played_dt = parse_last_played fromisoformat lp;
                taken = Some ((file_path, d, last_played_dt), d, last_played_dt)
            in
              (case st of
                 None \<Rightarrow> select_loop np fromisoformat current_emb cs taken
               | Some (b, best_dist, best_last_played) \<Rightarrow>
                   let tie = Some ((file_path, d, last_played_dt), best_dist, last_played_dt) in
                   if float_less d best_dist then select_loop np fromisoformat current_emb cs taken
                   else if float_near np d best_dist then
                     (case (best_last_played, last_played_dt) of
                        (Some bl, Some l) \<Rightarrow>
                          (case datetime_less l bl of
                             Inl e \<Rightarrow> Inl e
                           | Inr older \<Rightarrow>
                               select_loop np fromisoformat current_emb cs
                                 (if older then tie else st))
                      | (None, Some l) \<Rightarrow> select_loop np fromisoformat current_emb cs st
                      | (Some bl, None) \<Rightarrow> select_loop np fromisoformat current_emb cs tie
                      | (None, None) \<Rightarrow> select_loop np fromisoformat current_emb cs st)
                   else select_loop np fromisoformat current_emb cs st))"

definition select_best_match ::
  "numpy \<Rightarrow> (string \<Rightarrow> datetime option) \<Rightarrow> real list \<Rightarrow> candidate list \<Rightarrow> error + best option"
where
  "select_best_match np fromisoformat current_emb candidates =
     (case select_loop np fromisoformat current_emb candidates None of
        Inl e \<Rightarrow> Inl e
      | Inr st \<Rightarrow> Inr (map_option fst st))"

text \<open>
  \<^verbatim>\<open>main\<close> of nexttrack, after the arguments are read. A run ends with an exception or
  exit before anything is reported, or prints \<^verbatim>\<open>No suitable match found.\<close>, or prints
  the winner and then updates the play history, which may raise. The second component
  of the result is the play-history table afterwards.
\<close>

datatype report = Failed error | NoMatch | Winner best "error option"

definition nexttrack_main ::
  "numpy \<Rightarrow> (string \<Rightarrow> datetime option) \<Rightarrow> string \<Rightarrow> (string \<times> track) list \<Rightarrow> library \<Rightarrow>
   string \<Rightarrow> report \<times> library"
where
  "nexttrack_main np fromisoformat now tbl lib current_path =
     (case load_input_track tbl current_path of
        Inl e \<Rightarrow> (Failed e, lib)
      | Inr (current_emb, current_mbid, current_title) \<Rightarrow>
          (case select_best_match np fromisoformat current_emb
                  (load_candidates tbl lib current_path current_mbid current_title) of
             Inl e \<Rightarrow> (Failed e, lib)
           | Inr None \<Rightarrow> (NoMatch, lib)
           | Inr (Some (best_file, best_score, best_last_played)) \<Rightarrow>
               (case update_play_info now lib best_file of
                  Inl e \<Rightarrow> (Winner (best_file, best_score, best_last_played) (Some e), lib)
                | Inr lib' \<Rightarrow> (Winner (best_file, best_score, best_last_played) None, lib'))))"

section \<open>Records that a further run leaves alone\<close>

text \<open>
  A path is settled in a database when it has a record and, if the record would be
  looked up again (it has an identifier and a missing field), the cache table has the
  columns of the SELECT and holds for the identifier an entry with a raw payload none
  of whose fields would fill a missing field of the record.
\<close>

definition settled :: "'a database_scheme \<Rightarrow> string \<Rightarrow> bool" where
  "settled d p =
     (case map_of (tracks d) p of
        None \<Rightarrow> False
      | Some row \<Rightarrow>
          needs_lookup row \<longrightarrow>
            set select_columns \<subseteq> set (cache_columns d) \<and>
            (case map_of (mbid_cache d) (the (track_mbid row)) of
               None \<Rightarrow> False
             | Some e \<Rightarrow>
                 truthy_str (recording_json e) \<and>
                 (truthy_str (cached_genre e) \<longrightarrow> truthy_str (genre row)) \<and>
                 (truthy_int (cached_year e) \<longrightarrow> truthy_int (year row)) \<and>
                 (truthy_str (cached_album_type e) \<longrightarrow> truthy_str (album_type row))))"

text \<open>
  A text without alphanumeric characters has no ASCII letter or digit and has neither
  the Kelvin sign nor the capital I with a dot above, which are letters. The texts that
  meet these three conditions are the ones meant by \<open>no_alphanumerics\<close>; they include
  every text without alphanumeric characters.
\<close>

definition ascii_alnum :: string where
  "ascii_alnum = ''abcdefghijklmnopqrstuvwxyzABCDEFGHIJKLMNOPQRSTUVWXYZ0123456789''"

definition no_alphanumerics :: "string \<Rightarrow> bool" where
  "no_alphanumerics s =
     ((\<forall>c \<in> set s. c \<notin> set ascii_alnum) \<and> \<not> str_in kelvin_sign s \<and>
      \<not> str_in capital_i_dot s)"

section \<open>Example inputs\<close>

text \<open>
  What \<^verbatim>\<open>int\<close> returns on a text of ASCII digits; the worlds of the examples hand it
  no other text.
\<close>

definition digit_val :: "char \<Rightarrow> nat option" where
  "digit_val c = map_of (zip ''0123456789'' [0, 1, 2, 3, 4, 5, 6, 7, 8, 9]) c"

definition decimal_int :: "string \<Rightarrow> int option" where
  "decimal_int s =
     (if s = [] \<or> list_ex (\<lambda>c. digit_val c = None) s then None
      else Some (int (fold (\<lambda>c acc. 10 * acc + (case digit_val c of None \<Rightarrow> 0 | Some d \<Rightarrow> d))
                           s 0)))"

text \<open>
  A world whose files all carry the recording identifier \<open>m1\<close> in a UFID frame and
  whose lookup service is unreachable, and one whose files carry no tags at all.
\<close>

definition ex_offline :: world where
  "ex_offline =
     \<lparr>read_id3 = (\<lambda>p. Inr \<lparr>ufid_frames = [(''http://musicbrainz.org'', ''m1'')],
                            txxx_frames = []\<rparr>),
      get_recording_by_id = (\<lambda>calls mbid. Inl MusicBrainzError),
      get_artist_by_id = (\<lambda>calls artist_id. Inl MusicBrainzError),
      json_members = (\<lambda>r. []),
      py_int = decimal_int\<rparr>"

definition ex_untagged :: world where
  "ex_untagged =
     \<lparr>read_id3 = (\<lambda>p. Inr \<lparr>ufid_frames = [], txxx_frames = []\<rparr>),
      get_recording_by_id = (\<lambda>calls mbid. Inl MusicBrainzError),
      get_artist_by_id = (\<lambda>calls artist_id. Inl MusicBrainzError),
      json_members = (\<lambda>r. []),
      py_int = decimal_int\<rparr>"

text \<open>
  A database whose cache table has the raw-payload column (made by other means than
  \<^verbatim>\<open>create_db\<close>), empty, and the same with a cache entry for \<open>m1\<close> that holds a payload
  and three unknown fields.
\<close>

definition ex_payload_db :: database where
  "ex_payload_db =
     \<lparr>tracks = [],
      cache_columns = [''track_mbid'', ''genre'', ''year'', ''album_type'', ''recording_json''],
      mbid_cache = []\<rparr>"

definition ex_cached_unknown :: state where
  "ex_cached_unknown =
     connect (ex_payload_db
       \<lparr>mbid_cache :=
          [(''m1'', \<lparr>cached_genre = None, cached_year = None, cached_album_type = None,
                     recording_json = Some ''{}''\<rparr>)]\<rparr>)"

text \<open>
  The state after a file without tags is processed on a new database, and a store in
  which a record's year is the integer 0 while the cache entry of its recording holds
  the year 1975.
\<close>

definition ex_after_untagged :: state where
  "ex_after_untagged =
     (connect (create_db None))
       \<lparr>tracks := [(''music/a.mp3'',
                    \<lparr>track_mbid = None, artist_mbid = None, release_group_mbid = None,
                     genre = None, year = None, album_type = None, embedding = None\<rparr>)],
        sql_writes := [InsertTrack ''music/a.mp3''],
        printed := [FileStatus ''music/a.mp3'' [NewAdded None None None]]\<rparr>"

definition ex_year_zero_row :: track where
  "ex_year_zero_row =
     \<lparr>track_mbid = Some ''m1'', artist_mbid = None, release_group_mbid = None,
      genre = Some ''rock'', year = Some 0, album_type = Some ''Album'', embedding = None\<rparr>"

definition ex_year_zero :: state where
  "ex_year_zero =
     connect (ex_payload_db
       \<lparr>tracks := [(''music/a.mp3'', ex_year_zero_row)],
        mbid_cache :=
          [(''m1'', \<lparr>cached_genre = Some ''rock'', cached_year = Some 1975,
                     cached_album_type = Some ''Album'', recording_json = Some ''{}''\<rparr>)]\<rparr>)"

text \<open>
  For nexttrack. Exact arithmetic: it is what the doubles give wherever every
  intermediate result is itself a double, as it is for the vectors below, whose entries
  are whole numbers and whose norms are 1, \<open>2 ^ 20\<close> or \<open>2 ^ 24\<close>, so that every product, sum,
  quotient and difference on the way is a fraction of fewer than 53 bits over a power
  of two. Division by zero and NaN are as in IEEE; no example operates on an infinity.
\<close>

fun exact_mul :: "pyfloat \<Rightarrow> pyfloat \<Rightarrow> pyfloat" where
  "exact_mul (Finite x) (Finite y) = Finite (x * y)"
| "exact_mul a b = NaN"

fun exact_div :: "pyfloat \<Rightarrow> pyfloat \<Rightarrow> pyfloat" where
  "exact_div (Finite x) (Finite y) =
     (if y = 0 then (if x = 0 then NaN else if 0 < x then PosInf else NegInf)
      else Finite (x / y))"
| "exact_div a b = NaN"

fun exact_sub :: "pyfloat \<Rightarrow> pyfloat \<Rightarrow> pyfloat" where
  "exact_sub (Finite x) (Finite y) = Finite (x - y)"
| "exact_sub a b = NaN"

definition ex_numpy :: numpy where
  "ex_numpy =
     \<lparr>np_dot = (\<lambda>a b. if length a \<noteq> length b then Inl ValueError
                      else Inr (Finite (sum_list (map2 (*) a b)))),
      np_norm = (\<lambda>a. Finite (sqrt (sum_list (map (\<lambda>x. x * x) a)))),
      float_mul = exact_mul, float_div = exact_div, float_sub = exact_sub\<rparr>"

text \<open>
  A parser of three timestamps without offsets, tables of tracks with embeddings, a
  play-history table with one row, and the same with the greatest count a row can hold.
\<close>

definition ex_fromisoformat :: "string \<Rightarrow> datetime option" where
  "ex_fromisoformat =
     map_of [(''2024-01-01 00:00:00'', Naive 1704067200),
             (''2024-03-01 00:00:00'', Naive 1709251200),
             (''2024-06-01 00:00:00'', Naive 1717200000)]"

definition ex_track :: "string option \<Rightarrow> real list \<Rightarrow> track" where
  "ex_track mbid emb =
     \<lparr>track_mbid = mbid, artist_mbid = None, release_group_mbid = None,
      genre = None, year = None, album_type = None, embedding = Some emb\<rparr>"

definition ex_empty_ids :: "(string \<times> track) list" where
  "ex_empty_ids =
     [(''music/a.mp3'', ex_track (Some []) [1, 0]),
      (''music/b.mp3'', ex_track (Some []) [0, 1])]"

definition ex_tracks :: "(string \<times> track) list" where
  "ex_tracks =
     [(''music/a.mp3'', ex_track (Some ''m1'') [1, 0]),
      (''music/b.mp3'', ex_track (Some ''m1'') [0, 1]),
      (''music/a (live).mp3'', ex_track (Some ''m2'') [0, 1]),
      (''music/c.mp3'', ex_track (Some ''m3'') [0, 1]),
      (''music/---.mp3'', ex_track None [1, 0])]"

definition ex_history :: library where
  "ex_history =
     [''music/c.mp3'' \<mapsto> \<lparr>play_count = Some 2, last_played = Some ''2024-01-01 00:00:00''\<rparr>]"

definition ex_history_full :: library where
  "ex_history_full =
     [''music/c.mp3'' \<mapsto>
        \<lparr>play_count = Some 9223372036854775807, last_played = Some ''2024-01-01 00:00:00''\<rparr>]"

definition ex_near_duplicate :: "(string \<times> track) list" where
  "ex_near_duplicate =
     [(''music/a.mp3'', ex_track (Some ''m1'') [1, 0]),
      (''music/z.mp3'', ex_track None [1, 0])]"

text \<open>
  Candidates for the reference vector \<open>[1, 0, 0, 0, 0]\<close>. The vector of
  \<open>ex_played_closer\<close> has norm \<open>2 ^ 20\<close>, so its distance is \<open>1 - 1 / 2 ^ 20\<close>, less
  than a millionth below the distance 1 of the unit vectors. The vector of
  \<open>ex_never_farther\<close> has norm \<open>2 ^ 24\<close> and the product -1 with the reference, so
  its distance is \<open>1 + 1 / 2 ^ 24\<close>: less than a millionth above 1, more than a
  millionth above \<open>1 - 1 / 2 ^ 20\<close>.
\<close>

definition ex_never_played :: candidate where
  "ex_never_played = (''music/a.mp3'', [0, 1, 0, 0, 0], None, None)"

definition ex_played_closer :: candidate where
  "ex_played_closer =
     (''music/b.mp3'', [1, 1048575, 1447, 50, 29], None, Some ''2024-06-01 00:00:00'')"

definition ex_played_january :: candidate where
  "ex_played_january = (''music/x.mp3'', [0, 1, 0, 0, 0], None, Some ''2024-01-01 00:00:00'')"

definition ex_played_march :: candidate where
  "ex_played_march = (''music/w.mp3'', [0, 0, 1, 0, 0], None, Some ''2024-03-01 00:00:00'')"

definition ex_never_farther :: candidate where
  "ex_never_farther = (''music/z.mp3'', [- 1, 16777215, 5791, 130, 43], None, None)"

text \<open>
  For the two passes of build\_db: a directory with one audio file, the states after a
  first pass in which the lookup failed and after the pass that follows it, a world
  whose lookup service answers with a recording that has no tags, and the state after a
  first pass in that world.
\<close>

definition ex_listing :: "(string \<times> string list) list" where
  "ex_listing = [(''music'', [''a.mp3'', ''cover.jpg''])]"

definition ex_unresolved_row :: track where
  "ex_unresolved_row =
     \<lparr>track_mbid = Some ''m1'', artist_mbid = None, release_group_mbid = None,
      genre = None, year = None, album_type = None, embedding = None\<rparr>"

definition ex_failed_pass :: state where
  "ex_failed_pass =
     (connect ex_payload_db)
       \<lparr>tracks := [(''music/a.mp3'', ex_unresolved_row)],
        remote_log := [RecordingLookup ''m1''],
        sql_writes := [InsertTrack ''music/a.mp3''],
        printed := [QueryFailed ''m1'', FileStatus ''music/a.mp3'' [NewAdded None None None]]\<rparr>"

definition ex_failed_again :: state where
  "ex_failed_again =
     (connect ex_payload_db)
       \<lparr>tracks := [(''music/a.mp3'', ex_unresolved_row)],
        remote_log := [RecordingLookup ''m1''],
        printed := [QueryFailed ''m1'', FileStatus ''music/a.mp3'' [NoNewMetadata]]\<rparr>"

definition ex_recording :: recording where
  "ex_recording =
     \<lparr>tag_list = [],
      release_list =
        [\<lparr>rel_release_group = Some \<lparr>rg_tag_list = [], primary_type = Some ''Album''\<rparr>,
          rel_date = Some ''1975-10-31'', release_event_list = [],
          rel_status = Some ''Official'', rel_title = Some ''A Night at the Opera''\<rparr>],
      artist_credit = []\<rparr>"

definition ex_online :: world where
  "ex_online =
     \<lparr>read_id3 = (\<lambda>p. Inr \<lparr>ufid_frames = [(''http://musicbrainz.org'', ''m1'')],
                            txxx_frames = []\<rparr>),
      get_recording_by_id = (\<lambda>calls mbid. Inr ex_recording),
      get_artist_by_id = (\<lambda>calls artist_id. Inl MusicBrainzError),
      json_members = (\<lambda>r. []),
      py_int = decimal_int\<rparr>"

definition ex_clean_pass :: state where
  "ex_clean_pass =
     (connect ex_payload_db)
       \<lparr>tracks := [(''music/a.mp3'', ex_unresolved_row\<lparr>year := Some 1975, album_type := Some ''Album''\<rparr>)],
        mbid_cache :=
          [(''m1'', \<lparr>cached_genre = None, cached_year = Some 1975,
                     cached_album_type = Some ''Album'', recording_json = Some ''{}''\<rparr>)],
        diag := \<lparr>missing_genre = 1, missing_year = 0, missing_album_type = 0\<rparr>,
        remote_log := [RecordingLookup ''m1''],
        sql_writes := [UpsertCache ''m1'', InsertTrack ''music/a.mp3''],
        printed := [Resolved None (Some 1975) (Some ''Album''),
                    FileStatus ''music/a.mp3'' [NewAdded None (Some 1975) (Some ''Album'')]]\<rparr>"

section \<open>Auxiliary facts about the lookup and the driver\<close>

lemma query_failed_fields:
  "tracks (snd (query_failed m s)) = tracks s"
  "cache_columns (snd (query_failed m s)) = cache_columns s"
  "mbid_cache (snd (query_failed m s)) = mbid_cache s"
  "sql_writes (snd (query_failed m s)) = sql_writes s"
  "remote_log (snd (query_failed m s)) = remote_log s"
  "printed (snd (query_failed m s)) = printed s @ [QueryFailed m]"
  "fst (query_failed m s) = (None, None, None)"
  by (simp_all add: query_failed_def)

lemma fresh_lookup_outcome:
  assumes "fresh_lookup w m s = (r, s')"
  shows "tracks s' = tracks s \<and> cache_columns s' = cache_columns s \<and>
         ((r = (None, None, None) \<and> mbid_cache s' = mbid_cache s \<and> sql_writes s' = sql_writes s \<and>
           (\<exists>evs. printed s' = printed s @ evs @ [QueryFailed m]))
          \<or> (\<exists>payload. payload \<noteq> [] \<and>
               mbid_cache s' =
                 AList.update m \<lparr>cached_genre = fst r, cached_year = fst (snd r),
                                 cached_album_type = snd (snd r), recording_json = Some payload\<rparr>
                   (mbid_cache s) \<and>
               sql_writes s' = sql_writes s @ [UpsertCache m] \<and>
               (\<exists>evs. printed s' = printed s @ evs)))"
proof (cases "get_recording_by_id w (remote_log s) m")
  case (Inl e)
  with assms show ?thesis
    by (auto simp: fresh_lookup_def Let_def query_failed_def)
next
  case (Inr rec)
  obtain res calls where agg: "aggregate w rec (remote_log s @ [RecordingLookup m]) = (res, calls)"
    by (cases "aggregate w rec (remote_log s @ [RecordingLookup m])") auto
  show ?thesis
  proof (cases res)
    case (Inl e)
    with assms Inr agg show ?thesis
      by (auto simp: fresh_lookup_def Let_def query_failed_def)
  next
    case (Inr f)
    obtain g y t where f: "f = (g, y, t)" by (cases f) auto
    show ?thesis
    proof (cases "set insert_columns \<subseteq> set (cache_columns s)")
      case True
      show ?thesis
      proof (cases "case y of None \<Rightarrow> True | Some n \<Rightarrow> int64 n")
        case fits: True
        with True assms \<open>get_recording_by_id w (remote_log s) m = Inr rec\<close> agg Inr f
        show ?thesis
          by (auto simp: fresh_lookup_def Let_def json_dumps_def)
      next
        case False
        with True assms \<open>get_recording_by_id w (remote_log s) m = Inr rec\<close> agg Inr f
        show ?thesis
          by (auto simp: fresh_lookup_def Let_def query_failed_def)
      qed
    next
      case False
      with assms \<open>get_recording_by_id w (remote_log s) m = Inr rec\<close> agg Inr f show ?thesis
        by (auto simp: fresh_lookup_def Let_def query_failed_def)
    qed
  qed
qed

lemma query_musicbrainz_outcome:
  assumes "query_musicbrainz w m s = Inr (r, s')"
  shows "set select_columns \<subseteq> set (cache_columns s) \<and>
         ((s' = s \<and> (\<exists>e. map_of (mbid_cache s) m = Some e \<and> truthy_str (recording_json e) \<and>
                      r = (cached_genre e, cached_year e, cached_album_type e)))
          \<or> (fresh_lookup w m s = (r, s') \<and>
              (\<forall>e. map_of (mbid_cache s) m = Some e \<longrightarrow> \<not> truthy_str (recording_json e))))"
  using assms
  by (auto simp: query_musicbrainz_def split: if_splits option.splits)

lemma fresh_lookup_tracks:
  assumes "fresh_lookup w m s = (r, s')"
  shows "tracks s' = tracks s" and "cache_columns s' = cache_columns s"
  using fresh_lookup_outcome [OF assms] by blast+

lemma fresh_lookup_writes:
  assumes "fresh_lookup w m s = (r, s')"
  shows "sql_writes s' = sql_writes s \<or> sql_writes s' = sql_writes s @ [UpsertCache m]"
  using fresh_lookup_outcome [OF assms] by blast

lemma fresh_lookup_printed:
  assumes "fresh_lookup w m s = (r, s')"
  shows "\<exists>evs. printed s' = printed s @ evs"
proof -
  from fresh_lookup_outcome [OF assms]
  consider evs where "printed s' = printed s @ evs @ [QueryFailed m]"
    | evs where "printed s' = printed s @ evs"
    by blast
  then show ?thesis by cases blast+
qed

lemma query_musicbrainz_tracks:
  assumes "query_musicbrainz w m s = Inr (r, s')"
  shows "tracks s' = tracks s" and "cache_columns s' = cache_columns s"
  using query_musicbrainz_outcome [OF assms] fresh_lookup_tracks [of w m s r s'] by blast+

lemma query_musicbrainz_writes:
  assumes "query_musicbrainz w m s = Inr (r, s')"
  shows "sql_writes s' = sql_writes s \<or> sql_writes s' = sql_writes s @ [UpsertCache m]"
  using query_musicbrainz_outcome [OF assms] fresh_lookup_writes [of w m s r s'] by blast

lemma query_musicbrainz_printed:
  assumes "query_musicbrainz w m s = Inr (r, s')"
  shows "\<exists>evs. printed s' = printed s @ evs"
proof -
  from query_musicbrainz_outcome [OF assms]
  consider "s' = s" | "fresh_lookup w m s = (r, s')" by blast
  then show ?thesis
  proof cases
    case 1
    then show ?thesis by simp
  next
    case 2
    then show ?thesis by (rule fresh_lookup_printed)
  qed
qed

lemma process_file_complete:
  assumes "map_of (tracks s) p = Some row" "\<not> needs_lookup row"
  shows "process_file w p s = Inr (s\<lparr>printed := printed s @ [FileStatus p [ExistingComplete]]\<rparr>)"
  using assms by (simp add: process_file_def)

lemma get_mbids_fields:
  assumes "get_mbids w p s = (ids, s1)"
  shows "tracks s1 = tracks s" "cache_columns s1 = cache_columns s" "mbid_cache s1 = mbid_cache s"
    "sql_writes s1 = sql_writes s" "remote_log s1 = remote_log s"
    "\<exists>evs. printed s1 = printed s @ evs \<and> (\<forall>m. QueryFailed m \<notin> set evs)"
  using assms by (auto simp: get_mbids_def split: sum.splits)

lemma map_of_update_track:
  "map_of (update_track p (g, y, t) tbl) q =
     (if q = p then map_option (\<lambda>row. row\<lparr>genre := g, year := y, album_type := t\<rparr>) (map_of tbl q)
      else map_of tbl q)"
proof (induction tbl)
  case Nil
  show ?case by (simp add: update_track_def)
next
  case (Cons kv tbl)
  obtain k row where kv: "kv = (k, row)" by (cases kv)
  from Cons show ?case
    by (cases "q = p") (simp_all add: update_track_def kv)
qed

lemma process_file_lookup_error:
  assumes "map_of (tracks s) p = Some row" "needs_lookup row"
    and "query_musicbrainz w (the (track_mbid row)) s = Inl e"
  shows "process_file w p s = Inl e"
  using assms by (simp add: process_file_def)

lemma keep_or_take:
  "(case (if c then v else None) of None \<Rightarrow> old | Some x \<Rightarrow> Some x) =
     (if c \<and> v \<noteq> None then v else old)"
  by (cases v) auto

lemma process_file_lookup_eq:
  assumes row: "map_of (tracks s) p = Some row" and needs: "needs_lookup row"
    and q: "query_musicbrainz w (the (track_mbid row)) s = Inr ((g, y, t), s1)"
    and cg: "cg = (truthy_str g \<and> \<not> truthy_str (genre row))"
    and cy: "cy = (truthy_int y \<and> \<not> truthy_int (year row))"
    and ct: "ct = (truthy_str t \<and> \<not> truthy_str (album_type row))"
  shows "process_file w p s =
           Inr (if cg \<or> cy \<or> ct then
                  s1\<lparr>tracks :=
                        update_track p
                          (if cg then g else genre row, if cy then y else year row,
                           if ct then t else album_type row)
                          (tracks s1),
                      sql_writes := sql_writes s1 @ [UpdateTrack p],
                      printed := printed s1 @
                        [FileStatus p [MetadataUpdated (if cg then g else None)
                           (if cy then y else None) (if ct then t else None)]]\<rparr>
                else s1\<lparr>printed := printed s1 @ [FileStatus p [NoNewMetadata]]\<rparr>)"
proof -
  have g: "cg \<Longrightarrow> g \<noteq> None" and y: "cy \<Longrightarrow> y \<noteq> None" and t: "ct \<Longrightarrow> t \<noteq> None"
    unfolding cg cy ct by (auto simp: truthy_str_def truthy_int_def split: option.splits)
  have "process_file w p s =
     (let ug = (if cg then g else None); uy = (if cy then y else None);
          ut = (if ct then t else None)
      in if ug \<noteq> None \<or> uy \<noteq> None \<or> ut \<noteq> None then
           Inr (s1\<lparr>tracks :=
                     update_track p
                       (case ug of None \<Rightarrow> genre row | Some v \<Rightarrow> Some v,
                        case uy of None \<Rightarrow> year row | Some v \<Rightarrow> Some v,
                        case ut of None \<Rightarrow> album_type row | Some v \<Rightarrow> Some v)
                       (tracks s1),
                   sql_writes := sql_writes s1 @ [UpdateTrack p],
                   printed := printed s1 @ [FileStatus p [MetadataUpdated ug uy ut]]\<rparr>)
         else Inr (s1\<lparr>printed := printed s1 @ [FileStatus p [NoNewMetadata]]\<rparr>))"
    unfolding process_file_def cg cy ct using row needs q by simp
  also have "\<dots> = Inr (if cg \<or> cy \<or> ct then
                  s1\<lparr>tracks :=
                        update_track p
                          (if cg then g else genre row, if cy then y else year row,
                           if ct then t else album_type row)
                          (tracks s1),
                      sql_writes := sql_writes s1 @ [UpdateTrack p],
                      printed := printed s1 @
                        [FileStatus p [MetadataUpdated (if cg then g else None)
                           (if cy then y else None) (if ct then t else None)]]\<rparr>
                else s1\<lparr>printed := printed s1 @ [FileStatus p [NoNewMetadata]]\<rparr>)"
    using g y t unfolding Let_def keep_or_take
    by (cases cg; cases cy; cases ct; simp)
  finally show ?thesis .
qed

lemma process_file_new_eq:
  assumes none: "map_of (tracks s) p = None"
    and ids: "get_mbids w p s = ((mbid, a, rg), s1)"
    and q: "(if truthy_str mbid then query_musicbrainz w (the mbid) s1
             else Inr ((None, None, None), s1)) = Inr ((g, y, t), s2)"
  shows "process_file w p s =
           Inr (s2\<lparr>tracks := tracks s2 @
                      [(p, \<lparr>track_mbid = mbid, artist_mbid = a, release_group_mbid = rg,
                            genre = g, year = y, album_type = t, embedding = None\<rparr>)],
                   sql_writes := sql_writes s2 @ [InsertTrack p],
                   printed := printed s2 @ [FileStatus p [NewAdded g y t]]\<rparr>)"
proof -
  have "tracks s1 = tracks s" using get_mbids_fields(1) [OF ids] .
  moreover have "tracks s2 = tracks s1"
    using q query_musicbrainz_tracks(1) [of w "the mbid" s1 "(g, y, t)" s2]
    by (auto split: if_splits)
  ultimately have "p \<notin> fst ` set (tracks s2)"
    using none by (simp add: map_of_eq_None_iff)
  then show ?thesis
    using none ids q by (simp add: process_file_def insert_track_def)
qed

lemma process_file_new_error:
  assumes none: "map_of (tracks s) p = None"
    and ids: "get_mbids w p s = ((mbid, a, rg), s1)"
    and q: "(if truthy_str mbid then query_musicbrainz w (the mbid) s1
             else Inr ((None, None, None), s1)) = Inl e"
  shows "process_file w p s = Inl e"
  using assms by (simp add: process_file_def)

lemma map_of_append_new:
  "map_of tbl p = None \<Longrightarrow> map_of (tbl @ [(p, r)]) q = (if q = p then Some r else map_of tbl q)"
  by (simp add: map_add_def split: option.splits)

lemma truthy_changes:
  "truthy_str a \<Longrightarrow> \<not> truthy_str b \<Longrightarrow> a \<noteq> b"
  "truthy_int x \<Longrightarrow> \<not> truthy_int y \<Longrightarrow> x \<noteq> y"
  by auto

text \<open>
  With the columns of the SELECT in the cache table, \<^verbatim>\<open>query_musicbrainz\<close> returns for
  every world, and a lookup that fails comes back as three \<^verbatim>\<open>None\<close> with the failure
  printed and nothing cached.
\<close>

lemma query_musicbrainz_returns:
  assumes "set select_columns \<subseteq> set (cache_columns s)"
  shows "\<exists>r s'. query_musicbrainz w mbid s = Inr (r, s')"
  using assms by (auto simp: query_musicbrainz_def split: option.splits) (metis surj_pair)+

lemma failed_lookup_all_null:
  assumes "set select_columns \<subseteq> set (cache_columns s)"
    and "\<forall>e. map_of (mbid_cache s) mbid = Some e \<longrightarrow> \<not> truthy_str (recording_json e)"
    and "get_recording_by_id w (remote_log s) mbid = Inl err"
  shows "query_musicbrainz w mbid s =
           Inr ((None, None, None),
                s\<lparr>remote_log := remote_log s @ [RecordingLookup mbid],
                  printed := printed s @ [QueryFailed mbid]\<rparr>)"
  using assms
  by (auto simp: query_musicbrainz_def fresh_lookup_def query_failed_def Let_def
      split: option.splits)

lemma generate_metadata_string_example:
  "generate_metadata_string (Some ''Queen'') (Some ''Bohemian Rhapsody'') None (Some 1975)
     (Some ''Album'') = ''artist: Queen; title: Bohemian Rhapsody; year: 1975; album_type: Album''"
  by code_simp

section \<open>Properties of the cached lookup\<close>

text \<open>
  C9. The cache table that \<^verbatim>\<open>create_db\<close> creates has no \<^verbatim>\<open>recording_json\<close> column, so on
  a database it has just created the cache SELECT of \<^verbatim>\<open>query_musicbrainz\<close> raises
  OperationalError, for every world and every recording identifier: the database-error
  branch is the only one reachable, and no raw payload can be stored.
\<close>

theorem created_cache_lacks_payload_column:
  "''recording_json'' \<notin> set (cache_columns (create_db None)) \<and>
   query_musicbrainz w mbid (connect (create_db None)) = Inl OperationalError"
  by (simp add: query_musicbrainz_def connect_def create_db_def select_columns_def
      database.extend_def)

text \<open>
  C4. On the database that \<^verbatim>\<open>create_db\<close> creates, a lookup that fails does not come back
  as three \<^verbatim>\<open>None\<close>: the call raises, and the run over a directory of two tagged files
  ends with that exception at the first file, before the second is processed.
\<close>

theorem lookup_failure_raises_on_created_db:
  "query_musicbrainz ex_offline ''m1'' (connect (create_db None)) = Inl OperationalError \<and>
   build_db_main ex_offline [(''music'', [''a.mp3'', ''b.mp3''])] None = Inl OperationalError"
  by code_simp

text \<open>
  C2. When the cache table has the columns the SELECT names and the entry of a recording
  identifier holds a raw payload, \<^verbatim>\<open>query_musicbrainz\<close> returns the entry's three fields
  and leaves the whole state as it was, whatever the world is: the log of remote calls
  is unchanged, so the lookup service is not invoked. Nothing is asked of the three
  fields, which may all be null.
\<close>

theorem query_musicbrainz_cache_hit:
  assumes "set select_columns \<subseteq> set (cache_columns s)"
    and "map_of (mbid_cache s) mbid = Some row"
    and "truthy_str (recording_json row)"
  shows "query_musicbrainz w mbid s =
           Inr ((cached_genre row, cached_year row, cached_album_type row), s)"
  using assms by (simp add: query_musicbrainz_def)

theorem query_musicbrainz_cache_hit_witness:
  "query_musicbrainz ex_offline ''m1'' ex_cached_unknown =
     Inr ((None, None, None), ex_cached_unknown) \<and>
   remote_log ex_cached_unknown = []"
proof -
  let ?row = "\<lparr>cached_genre = None, cached_year = None, cached_album_type = None,
               recording_json = Some ''{}''\<rparr>"
  have cols: "set select_columns \<subseteq> set (cache_columns ex_cached_unknown)"
    by (simp add: select_columns_def ex_cached_unknown_def ex_payload_db_def connect_def
        database.extend_def)
  have row: "map_of (mbid_cache ex_cached_unknown) ''m1'' = Some ?row"
    by (simp add: ex_cached_unknown_def ex_payload_db_def connect_def database.extend_def)
  have payload: "truthy_str (recording_json ?row)"
    by (simp add: truthy_str_def)
  have "remote_log ex_cached_unknown = []"
    by (simp add: ex_cached_unknown_def connect_def database.extend_def)
  with query_musicbrainz_cache_hit [OF cols row payload, of ex_offline] show ?thesis
    by simp
qed

section \<open>Properties of the ingestion driver\<close>

text \<open>
  C1. \<^verbatim>\<open>process_file\<close> never calls \<^verbatim>\<open>generate_metadata_string\<close> or the embedding
  function and never writes the embedding column: after a file is processed, the
  embedding of its record is what it was before, and NULL when the record is new.
  So the descriptor is not built and no embedding is persisted for the file.
\<close>

theorem process_file_never_embeds:
  assumes "process_file w p s = Inr s'"
  shows "\<exists>row. map_of (tracks s') p = Some row \<and>
           embedding row = (case map_of (tracks s) p of None \<Rightarrow> None | Some old \<Rightarrow> embedding old)"
proof (cases "map_of (tracks s) p")
  case None
  obtain mbid a rg s1 where ids: "get_mbids w p s = ((mbid, a, rg), s1)"
    by (metis prod_cases3 surj_pair)
  show ?thesis
  proof (cases "if truthy_str mbid then query_musicbrainz w (the mbid) s1
                else Inr ((None, None, None), s1)")
    case (Inl e)
    from process_file_new_error [OF None ids Inl] assms show ?thesis by simp
  next
    case (Inr res)
    obtain g y t s2 where res: "res = ((g, y, t), s2)" by (metis prod_cases3 surj_pair)
    have "tracks s2 = tracks s"
      using Inr res get_mbids_fields(1) [OF ids]
        query_musicbrainz_tracks(1) [of w "the mbid" s1 "(g, y, t)" s2]
      by (auto split: if_splits)
    with process_file_new_eq [OF None ids Inr [unfolded res]] assms None show ?thesis
      by (auto simp: map_of_append_new simp del: map_of_append)
  qed
next
  case (Some row)
  show ?thesis
  proof (cases "needs_lookup row")
    case False
    from process_file_complete [OF Some False, of w] assms Some show ?thesis by auto
  next
    case True
    show ?thesis
    proof (cases "query_musicbrainz w (the (track_mbid row)) s")
      case (Inl e)
      from process_file_lookup_error [OF Some True Inl] assms show ?thesis by simp
    next
      case (Inr res)
      obtain g y t s1 where res: "res = ((g, y, t), s1)" by (metis prod_cases3 surj_pair)
      have tr: "tracks s1 = tracks s"
        using query_musicbrainz_tracks(1) [OF Inr [unfolded res]] .
      from process_file_lookup_eq [OF Some True Inr [unfolded res] refl refl refl] assms
      show ?thesis
        using Some tr by (auto simp: map_of_update_track split: if_splits)
    qed
  qed
qed

theorem process_file_never_embeds_witness:
  "process_file ex_untagged ''music/a.mp3'' (connect (create_db None)) = Inr ex_after_untagged \<and>
   (\<exists>row. map_of (tracks ex_after_untagged) ''music/a.mp3'' = Some row \<and> embedding row = None)"
proof -
  have run: "process_file ex_untagged ''music/a.mp3'' (connect (create_db None)) = Inr ex_after_untagged"
    by (simp add: process_file_def connect_def create_db_def database.extend_def get_mbids_def
      read_mbids_def ex_untagged_def truthy_str_def insert_track_def ex_after_untagged_def)
  have "map_of (tracks (connect (create_db None))) ''music/a.mp3'' = None"
    by (simp add: connect_def create_db_def database.extend_def)
  with process_file_never_embeds [OF run] run show ?thesis by simp
qed

text \<open>
  C3, as the claim states it, fails: a year that is 0 (not null) counts as missing and
  is replaced by the cached year.
\<close>

theorem backfill_replaces_zero_year:
  "tracks ex_year_zero = [(''music/a.mp3'', ex_year_zero_row)] \<and>
   year ex_year_zero_row = Some 0 \<and>
   process_file ex_offline ''music/a.mp3'' ex_year_zero =
     Inr (ex_year_zero
           \<lparr>tracks := [(''music/a.mp3'', ex_year_zero_row\<lparr>year := Some 1975\<rparr>)],
            sql_writes := [UpdateTrack ''music/a.mp3''],
            printed := [FileStatus ''music/a.mp3'' [MetadataUpdated None (Some 1975) None]]\<rparr>)"
  by (simp add: process_file_def needs_lookup_def truthy_str_def truthy_int_def
      query_musicbrainz_def select_columns_def ex_year_zero_def ex_year_zero_row_def
      ex_payload_db_def connect_def database.extend_def update_track_def Let_def)

text \<open>
  C3, amended. For an existing record, \<^verbatim>\<open>process_file\<close> leaves each of genre, year and
  album type as it was or takes it from a value that Python counts as false (null, the
  empty string, the year 0) to one that counts as true; a field that counts as true is
  never replaced. The UPDATE statement is executed only if the record changed, and
  without it the table of tracks is unchanged.
\<close>

theorem process_file_backfill:
  assumes row: "map_of (tracks s) p = Some row" and run: "process_file w p s = Inr s'"
  shows "\<exists>row' ws. map_of (tracks s') p = Some row' \<and>
           (genre row' = genre row \<or> (\<not> truthy_str (genre row) \<and> truthy_str (genre row'))) \<and>
           (year row' = year row \<or> (\<not> truthy_int (year row) \<and> truthy_int (year row'))) \<and>
           (album_type row' = album_type row \<or>
              (\<not> truthy_str (album_type row) \<and> truthy_str (album_type row'))) \<and>
           sql_writes s' = sql_writes s @ ws \<and>
           (UpdateTrack p \<in> set ws \<longrightarrow> row' \<noteq> row) \<and>
           (UpdateTrack p \<notin> set ws \<longrightarrow> tracks s' = tracks s)"
proof (cases "needs_lookup row")
  case False
  from process_file_complete [OF row False, of w] run
  have "s' = s\<lparr>printed := printed s @ [FileStatus p [ExistingComplete]]\<rparr>" by simp
  with row show ?thesis by simp
next
  case True
  show ?thesis
  proof (cases "query_musicbrainz w (the (track_mbid row)) s")
    case (Inl e)
    from process_file_lookup_error [OF row True Inl] run show ?thesis by simp
  next
    case (Inr res)
    obtain g y t s1 where res: "res = ((g, y, t), s1)" by (metis prod_cases3 surj_pair)
    note q = Inr [unfolded res]
    have tr: "tracks s1 = tracks s" using query_musicbrainz_tracks(1) [OF q] .
    obtain ws1 where ws1: "sql_writes s1 = sql_writes s @ ws1" "UpdateTrack p \<notin> set ws1"
      using query_musicbrainz_writes [OF q] by (metis append_Nil2 empty_iff empty_set set_ConsD sql_write.distinct(5))
    define cg where "cg = (truthy_str g \<and> \<not> truthy_str (genre row))"
    define cy where "cy = (truthy_int y \<and> \<not> truthy_int (year row))"
    define ct where "ct = (truthy_str t \<and> \<not> truthy_str (album_type row))"
    note eq = process_file_lookup_eq [OF row True q cg_def cy_def ct_def]
    show ?thesis
    proof (cases "cg \<or> cy \<or> ct")
      case False
      with eq run have "s' = s1\<lparr>printed := printed s1 @ [FileStatus p [NoNewMetadata]]\<rparr>"
        by simp
      with row tr ws1 show ?thesis by simp
    next
      case upd: True
      let ?row' = "row\<lparr>genre := (if cg then g else genre row),
                       year := (if cy then y else year row),
                       album_type := (if ct then t else album_type row)\<rparr>"
      from upd eq run have s': "s' = s1\<lparr>tracks :=
                        update_track p
                          (if cg then g else genre row, if cy then y else year row,
                           if ct then t else album_type row)
                          (tracks s1),
                      sql_writes := sql_writes s1 @ [UpdateTrack p],
                      printed := printed s1 @
                        [FileStatus p [MetadataUpdated (if cg then g else None)
                           (if cy then y else None) (if ct then t else None)]]\<rparr>"
        by simp
      have look: "map_of (tracks s') p = Some ?row'"
        by (simp add: s' tr map_of_update_track row)
      have diff: "?row' \<noteq> row"
      proof
        assume same: "?row' = row"
        from same have "genre ?row' = genre row" "year ?row' = year row"
          "album_type ?row' = album_type row" by simp_all
        then have "\<not> cg" "\<not> cy" "\<not> ct"
          using truthy_changes unfolding cg_def cy_def ct_def
          by (auto split: if_splits)
        with upd show False by simp
      qed
      have writes: "sql_writes s' = sql_writes s @ (ws1 @ [UpdateTrack p])"
        by (simp add: s' ws1)
      have fields:
        "genre ?row' = genre row \<or> (\<not> truthy_str (genre row) \<and> truthy_str (genre ?row'))"
        "year ?row' = year row \<or> (\<not> truthy_int (year row) \<and> truthy_int (year ?row'))"
        "album_type ?row' = album_type row \<or>
           (\<not> truthy_str (album_type row) \<and> truthy_str (album_type ?row'))"
        by (simp_all add: cg_def cy_def ct_def)
      from look fields writes diff show ?thesis
        by (intro exI [of _ ?row'] exI [of _ "ws1 @ [UpdateTrack p]"]) simp
    qed
  qed
qed

theorem process_file_backfill_witness:
  "\<exists>row' ws.
     map_of (tracks (ex_year_zero
           \<lparr>tracks := [(''music/a.mp3'', ex_year_zero_row\<lparr>year := Some 1975\<rparr>)],
            sql_writes := [UpdateTrack ''music/a.mp3''],
            printed := [FileStatus ''music/a.mp3'' [MetadataUpdated None (Some 1975) None]]\<rparr>))
       ''music/a.mp3'' = Some row' \<and>
     genre row' = Some ''rock'' \<and> truthy_int (year row') \<and> album_type row' = Some ''Album'' \<and>
     [UpdateTrack ''music/a.mp3''] = sql_writes ex_year_zero @ ws \<and> row' \<noteq> ex_year_zero_row"
proof -
  let ?after = "ex_year_zero
           \<lparr>tracks := [(''music/a.mp3'', ex_year_zero_row\<lparr>year := Some 1975\<rparr>)],
            sql_writes := [UpdateTrack ''music/a.mp3''],
            printed := [FileStatus ''music/a.mp3'' [MetadataUpdated None (Some 1975) None]]\<rparr>"
  have row: "map_of (tracks ex_year_zero) ''music/a.mp3'' = Some ex_year_zero_row"
    by (simp add: ex_year_zero_def ex_payload_db_def connect_def database.extend_def)
  have run: "process_file ex_offline ''music/a.mp3'' ex_year_zero = Inr ?after"
    by (simp add: process_file_def needs_lookup_def truthy_str_def truthy_int_def
      query_musicbrainz_def select_columns_def ex_year_zero_def ex_year_zero_row_def
      ex_payload_db_def connect_def database.extend_def update_track_def Let_def)
  have nowrites: "sql_writes ex_year_zero = []"
    by (simp add: ex_year_zero_def connect_def database.extend_def)
  from process_file_backfill [OF row run] obtain row' ws where
    r: "map_of (tracks ?after) ''music/a.mp3'' = Some row'"
    and w: "sql_writes ?after = sql_writes ex_year_zero @ ws"
    and d: "UpdateTrack ''music/a.mp3'' \<in> set ws \<longrightarrow> row' \<noteq> ex_year_zero_row"
    by blast
  from r have row': "row' = ex_year_zero_row\<lparr>year := Some 1975\<rparr>" by simp
  from w nowrites have ws: "ws = [UpdateTrack ''music/a.mp3'']" by simp
  from d ws have "row' \<noteq> ex_year_zero_row" by simp
  with r ws nowrites row' show ?thesis
    by (intro exI [of _ row'] exI [of _ ws]) (simp add: ex_year_zero_row_def truthy_int_def)
qed

section \<open>Auxiliary facts about the selection\<close>

lemma str_in_empty: "str_in [] s"
  by (cases s) simp_all

lemma lower_char_alnum:
  "lower_char c \<in> set ''abcdefghijklmnopqrstuvwxyz0123456789'' \<Longrightarrow> c \<in> set ascii_alnum"
  by (auto simp: lower_char_def ascii_alnum_def split: if_splits)

lemma normalize_string_no_alphanumerics:
  assumes "no_alphanumerics s"
  shows "normalize_string s = []"
proof -
  have "(\<forall>c \<in> set s. c \<notin> set ascii_alnum) \<Longrightarrow> \<not> str_in kelvin_sign s \<Longrightarrow>
        \<not> str_in capital_i_dot s \<Longrightarrow>
        filter (\<lambda>c. c \<in> set ''abcdefghijklmnopqrstuvwxyz0123456789'') (lower s) = []"
  proof (induction s)
    case Nil
    show ?case by simp
  next
    case (Cons c cs)
    have len: "length kelvin_sign = 3" "length capital_i_dot = 2"
      by (simp_all add: kelvin_sign_def capital_i_dot_def)
    from Cons.prems(2) [unfolded str_in.simps]
    have k: "take 3 (c # cs) \<noteq> kelvin_sign" "\<not> str_in kelvin_sign cs"
      unfolding len by blast+
    from Cons.prems(3) [unfolded str_in.simps]
    have i: "take 2 (c # cs) \<noteq> capital_i_dot" "\<not> str_in capital_i_dot cs"
      unfolding len by blast+
    from Cons.prems(1) have c: "c \<notin> set ascii_alnum" "\<forall>c \<in> set cs. c \<notin> set ascii_alnum"
      by simp_all
    from c(1) lower_char_alnum
    have drop: "lower_char c \<notin> set ''abcdefghijklmnopqrstuvwxyz0123456789''" by blast
    have "lower (c # cs) = lower_char c # lower cs"
      by (simp only: lower.simps k(1) i(1) if_False)
    with Cons.IH [OF c(2) k(2) i(2)] drop show ?case
      by (simp del: set_simps)
  qed
  with assms show ?thesis
    by (simp add: no_alphanumerics_def normalize_string_def del: set_simps)
qed

lemma set_map_filter: "set (List.map_filter f xs) = {y. \<exists>x \<in> set xs. f x = Some y}"
  by (induction xs) (auto split: option.splits)

lemma load_candidates_member:
  assumes "(q, e, m, l) \<in> set (load_candidates tbl lib p mbid title)"
  shows "\<exists>row. (q, row) \<in> set tbl \<and> embedding row = Some e \<and> m = track_mbid row \<and> q \<noteq> p \<and>
           \<not> (truthy_str mbid \<and> track_mbid row = mbid) \<and>
           \<not> str_in (normalize_string title) (normalize_string (split_last CHR ''/'' q))"
  using assms unfolding load_candidates_def set_map_filter
  by (auto split: option.splits if_splits)

lemma load_candidates_empty_title:
  assumes "normalize_string title = []"
  shows "load_candidates tbl lib p mbid title = []"
proof -
  have "(\<lambda>(file_path, row).
          case embedding row of
            None \<Rightarrow> None
          | Some emb \<Rightarrow>
              if file_path = p then None
              else if truthy_str mbid \<and> track_mbid row = mbid then None
              else if str_in (normalize_string title)
                             (normalize_string (split_last CHR ''/'' file_path))
              then None
              else Some (file_path, emb, track_mbid row,
                         case lib file_path of None \<Rightarrow> None | Some r \<Rightarrow> last_played r)) x = None"
    for x :: "string \<times> track"
    by (cases x) (simp add: assms str_in_empty split: option.splits)
  then show ?thesis
    unfolding load_candidates_def by (induction tbl) simp_all
qed

lemma select_loop_winner:
  assumes "select_loop np fi cur cs st = Inr (Some ((w, d, l), bd, bl))"
  shows "(\<exists>d' l' bd' bl'. st = Some ((w, d', l'), bd', bl')) \<or> w \<in> fst ` set cs"
  using assms
proof (induction cs arbitrary: st)
  case Nil
  then show ?case by simp
next
  case (Cons c cs)
  obtain q e m lp where c: "c = (q, e, m, lp)" by (metis prod_cases4)
  from Cons.prems obtain st' where
    step: "select_loop np fi cur cs st' = Inr (Some ((w, d, l), bd, bl))"
    and st': "st' = st \<or> (\<exists>d' l' bd'. st' = Some ((q, d', l'), bd', l'))"
    unfolding c
    by (auto simp: Let_def split: sum.splits if_splits option.splits prod.splits)
  from Cons.IH [OF step] st' show ?case
    unfolding c by auto
qed

lemma select_loop_skips:
  assumes "\<forall>c \<in> set cs. \<exists>d. cosine_distance np cur (fst (snd c)) = Inr d \<and> float_less d DISTANCE_THRESHOLD"
  shows "select_loop np fi cur cs st = Inr st"
  using assms
proof (induction cs)
  case Nil
  show ?case by simp
next
  case (Cons c cs)
  obtain q e m lp where c: "c = (q, e, m, lp)" by (metis prod_cases4)
  from Cons.prems obtain d where "cosine_distance np cur e = Inr d" "float_less d DISTANCE_THRESHOLD"
    unfolding c by auto
  with Cons show ?case unfolding c by simp
qed

lemma select_best_match_winner:
  assumes "select_best_match np fi cur cs = Inr (Some (w, d, l))"
  shows "w \<in> fst ` set cs"
proof -
  from assms obtain bd bl where "select_loop np fi cur cs None = Inr (Some ((w, d, l), bd, bl))"
    unfolding select_best_match_def by (auto split: sum.splits)
  from select_loop_winner [OF this] show ?thesis by simp
qed

lemma ex_norms:
  "np_norm ex_numpy [1, 0] = Finite 1" "np_norm ex_numpy [0, 1] = Finite 1"
  "np_norm ex_numpy [1, 0, 0, 0, 0] = Finite 1" "np_norm ex_numpy [0, 1, 0, 0, 0] = Finite 1"
  "np_norm ex_numpy [0, 0, 1, 0, 0] = Finite 1"
  by (simp_all add: ex_numpy_def)

lemma ex_norm_closer: "np_norm ex_numpy [1, 1048575, 1447, 50, 29] = Finite 1048576"
proof -
  have "sqrt 1099511627776 = 1048576"
    by (rule real_sqrt_unique) simp_all
  then show ?thesis by (simp add: ex_numpy_def)
qed

lemma ex_norm_farther: "np_norm ex_numpy [- 1, 16777215, 5791, 130, 43] = Finite 16777216"
proof -
  have "sqrt 281474976710656 = 16777216"
    by (rule real_sqrt_unique) simp_all
  then show ?thesis by (simp add: ex_numpy_def)
qed

lemma cosine_examples:
  "cosine_distance ex_numpy [1, 0] [0, 1] = Inr (Finite 1)"
  "cosine_distance ex_numpy [1, 0] [1, 0] = Inr (Finite 0)"
  "cosine_distance ex_numpy [1, 0, 0, 0, 0] [0, 1, 0, 0, 0] = Inr (Finite 1)"
  "cosine_distance ex_numpy [1, 0, 0, 0, 0] [0, 0, 1, 0, 0] = Inr (Finite 1)"
  "cosine_distance ex_numpy [1, 0, 0, 0, 0] [1, 1048575, 1447, 50, 29] =
     Inr (Finite (1048575 / 1048576))"
  "cosine_distance ex_numpy [1, 0, 0, 0, 0] [- 1, 16777215, 5791, 130, 43] =
     Inr (Finite (16777217 / 16777216))"
  unfolding cosine_distance_def ex_norms ex_norm_closer ex_norm_farther
  by (simp_all add: ex_numpy_def)

lemma ex_empty_ids_input:
  "load_input_track ex_empty_ids ''music/a.mp3'' = Inr ([1, 0], Some [], ''a'')"
  by code_simp

lemma ex_empty_ids_candidates:
  "load_candidates ex_empty_ids Map.empty ''music/a.mp3'' (Some []) ''a'' =
     [(''music/b.mp3'', [0, 1], Some [], None)]"
  by code_simp

lemma ex_tracks_input:
  "load_input_track ex_tracks ''music/a.mp3'' = Inr ([1, 0], Some ''m1'', ''a'')"
  by code_simp

lemma ex_tracks_candidates:
  "load_candidates ex_tracks ex_history ''music/a.mp3'' (Some ''m1'') ''a'' =
     [(''music/c.mp3'', [0, 1], Some ''m3'', Some ''2024-01-01 00:00:00''),
      (''music/---.mp3'', [1, 0], None, None)]"
  "load_candidates ex_tracks ex_history_full ''music/a.mp3'' (Some ''m1'') ''a'' =
     [(''music/c.mp3'', [0, 1], Some ''m3'', Some ''2024-01-01 00:00:00''),
      (''music/---.mp3'', [1, 0], None, None)]"
  by code_simp+

lemma ex_tracks_selection:
  "select_best_match ex_numpy ex_fromisoformat [1, 0]
     [(''music/c.mp3'', [0, 1], Some ''m3'', Some ''2024-01-01 00:00:00''),
      (''music/---.mp3'', [1, 0], None, None)] =
   Inr (Some (''music/c.mp3'', Finite 1, Some (Naive 1704067200)))"
  by (simp add: select_best_match_def cosine_examples DISTANCE_THRESHOLD_def
      parse_last_played_def Let_def ex_fromisoformat_def)

lemma ex_tracks_run:
  "nexttrack_main ex_numpy ex_fromisoformat ''2024-06-01 00:00:00'' ex_tracks ex_history
     ''music/a.mp3'' =
     (Winner (''music/c.mp3'', Finite 1, Some (Naive 1704067200)) None,
      ex_history(''music/c.mp3'' \<mapsto>
        \<lparr>play_count = Some 3, last_played = Some ''2024-06-01 00:00:00''\<rparr>))"
  by (simp add: nexttrack_main_def ex_tracks_input ex_tracks_candidates ex_tracks_selection)
    (simp add: update_play_info_def ex_history_def int64_def)

lemma ex_near_duplicate_input:
  "load_input_track ex_near_duplicate ''music/a.mp3'' = Inr ([1, 0], Some ''m1'', ''a'')"
  by code_simp

lemma ex_near_duplicate_candidates:
  "load_candidates ex_near_duplicate ex_history ''music/a.mp3'' (Some ''m1'') ''a'' =
     [(''music/z.mp3'', [1, 0], None, None)]"
  by code_simp

lemma remastered_example_not_excluded:
  "\<not> str_in (normalize_string (strip_mp3 ''Queen - Bohemian Rhapsody.mp3''))
            (normalize_string ''01 - Bohemian Rhapsody (Remastered).mp3'')"
  by code_simp

lemma kelvin_title_example:
  "normalize_string kelvin_sign = ''k''" "normalize_string (capital_i_dot @ ''-'') = ''i''"
  by code_simp+

lemma ex_history_full_run:
  "nexttrack_main ex_numpy ex_fromisoformat ''2024-06-01 00:00:00'' ex_tracks ex_history_full
     ''music/a.mp3'' =
     (Winner (''music/c.mp3'', Finite 1, Some (Naive 1704067200)) (Some OverflowError),
      ex_history_full)"
  by (simp add: nexttrack_main_def ex_tracks_input ex_tracks_candidates ex_tracks_selection)
    (simp add: update_play_info_def ex_history_full_def int64_def)

lemma ex_near_duplicate_run:
  "nexttrack_main ex_numpy ex_fromisoformat ''2024-06-01 00:00:00'' ex_near_duplicate ex_history
     ''music/a.mp3'' = (NoMatch, ex_history)"
  by (simp add: nexttrack_main_def ex_near_duplicate_input ex_near_duplicate_candidates
      select_best_match_def cosine_examples DISTANCE_THRESHOLD_def Let_def)

text \<open>
  What \<^verbatim>\<open>select_best_match\<close> does with two candidates examined alone, neither below
  the near-duplicate threshold: the one played less recently (or never) is returned in
  both orders provided the other one is not strictly closer and, unless it is itself
  strictly closer, the test of the source on the absolute difference holds.
\<close>

lemma tie_break_within_epsilon:
  assumes da: "cosine_distance np cur ea = Inr da" and db: "cosine_distance np cur eb = Inr db"
    and far: "\<not> float_less da DISTANCE_THRESHOLD" "\<not> float_less db DISTANCE_THRESHOLD"
    and not_closer: "\<not> float_less db da"
    and tie: "float_less da db \<or> float_near np da db"
    and la: "la = parse_last_played fi lpa" and lb: "lb = parse_last_played fi lpb"
    and older: "(la = None \<and> lb \<noteq> None) \<or>
                (\<exists>x y. la = Some x \<and> lb = Some y \<and> datetime_less x y = Inr True)"
  shows "select_best_match np fi cur [(pa, ea, ma, lpa), (pb, eb, mb, lpb)] =
           Inr (Some (pa, da, la)) \<and>
         select_best_match np fi cur [(pb, eb, mb, lpb), (pa, ea, ma, lpa)] =
           Inr (Some (pa, da, la))"
  using older
proof
  assume "la = None \<and> lb \<noteq> None"
  then obtain y where l: "la = None" "lb = Some y" by auto
  from l la lb have p: "parse_last_played fi lpa = None" "parse_last_played fi lpb = Some y"
    by simp_all
  have first: "select_best_match np fi cur [(pa, ea, ma, lpa), (pb, eb, mb, lpb)] =
           Inr (Some (pa, da, la))"
    using far not_closer
    by (simp add: select_best_match_def Let_def da db p l)
  have second: "select_best_match np fi cur [(pb, eb, mb, lpb), (pa, ea, ma, lpa)] =
           Inr (Some (pa, da, la))"
    using far tie
    by (auto simp: select_best_match_def Let_def da db p l)
  from first second show ?thesis by simp
next
  assume "\<exists>x y. la = Some x \<and> lb = Some y \<and> datetime_less x y = Inr True"
  then obtain x y where l: "la = Some x" "lb = Some y" and xy: "datetime_less x y = Inr True"
    by auto
  from xy have yx: "datetime_less y x = Inr False"
    by (cases x; cases y) auto
  from l la lb have p: "parse_last_played fi lpa = Some x" "parse_last_played fi lpb = Some y"
    by simp_all
  have first: "select_best_match np fi cur [(pa, ea, ma, lpa), (pb, eb, mb, lpb)] =
           Inr (Some (pa, da, la))"
    using far not_closer
    by (simp add: select_best_match_def Let_def da db p l yx)
  have second: "select_best_match np fi cur [(pb, eb, mb, lpb), (pa, ea, ma, lpa)] =
           Inr (Some (pa, da, la))"
    using far tie
    by (auto simp: select_best_match_def Let_def da db p l xy)
  from first second show ?thesis by simp
qed

section \<open>Properties of the selection\<close>

text \<open>
  C6, as the claim states it, fails: the test on the recording identifier is
  \<^verbatim>\<open>if current_mbid and track_mbid == current_mbid\<close>, so a reference whose identifier is
  the empty string (not null) excludes nothing by it, and a candidate with the same
  identifier is returned.
\<close>

theorem empty_identifier_not_excluded:
  "map_of ex_empty_ids ''music/a.mp3'' = Some (ex_track (Some []) [1, 0]) \<and>
   map_of ex_empty_ids ''music/b.mp3'' = Some (ex_track (Some []) [0, 1]) \<and>
   nexttrack_main ex_numpy ex_fromisoformat ''2024-06-01 00:00:00'' ex_empty_ids Map.empty
     ''music/a.mp3'' =
     (Winner (''music/b.mp3'', Finite 1, None) None, Map.empty)"
  by (simp add: nexttrack_main_def ex_empty_ids_input ex_empty_ids_candidates
      select_best_match_def cosine_examples DISTANCE_THRESHOLD_def
      parse_last_played_def update_play_info_def Let_def)
    (simp add: ex_empty_ids_def)

text \<open>
  C6, amended. Whenever \<^verbatim>\<open>main\<close> of nexttrack reports a winner, the winner is not the
  reference path; it is the path of a row of the table whose recording identifier
  differs from the reference's identifier unless that is null or empty; and its
  normalized file name does not contain the normalized title of the reference.
\<close>

theorem select_next_exclusions:
  assumes "nexttrack_main np fi now tbl lib p = (Winner (winner, score, lp) err, lib')"
  shows "winner \<noteq> p \<and>
         (\<exists>ref row. map_of tbl p = Some ref \<and> (winner, row) \<in> set tbl \<and>
            \<not> (truthy_str (track_mbid ref) \<and> track_mbid row = track_mbid ref) \<and>
            \<not> str_in (normalize_string (strip_mp3 (split_last CHR ''/'' p)))
                      (normalize_string (split_last CHR ''/'' winner)))"
proof -
  from assms obtain ref emb where ref: "map_of tbl p = Some ref" "embedding ref = Some emb"
    and best: "select_best_match np fi emb
                 (load_candidates tbl lib p (track_mbid ref) (strip_mp3 (split_last CHR ''/'' p))) =
               Inr (Some (winner, score, lp))"
    unfolding nexttrack_main_def load_input_track_def
    by (auto split: option.splits sum.splits prod.splits)
  from select_best_match_winner [OF best] obtain e m l where
    "(winner, e, m, l) \<in> set (load_candidates tbl lib p (track_mbid ref)
                                (strip_mp3 (split_last CHR ''/'' p)))"
    by auto
  from load_candidates_member [OF this] ref(1) show ?thesis by blast
qed

theorem select_next_exclusions_witness:
  "''music/c.mp3'' \<noteq> ''music/a.mp3'' \<and>
   (\<exists>ref row. map_of ex_tracks ''music/a.mp3'' = Some ref \<and>
      (''music/c.mp3'', row) \<in> set ex_tracks \<and>
      \<not> (truthy_str (track_mbid ref) \<and> track_mbid row = track_mbid ref) \<and>
      \<not> str_in (normalize_string (strip_mp3 (split_last CHR ''/'' ''music/a.mp3'')))
                (normalize_string (split_last CHR ''/'' ''music/c.mp3'')))"
  using select_next_exclusions [OF ex_tracks_run] .

text \<open>
  C7. The claim fails, and the source departs from its own comment
  \<^verbatim>\<open>If distances are equal, prefer older last_played\<close>. The reference vector is
  \<open>[1, 0, 0, 0, 0]\<close>; on the vectors below every operation of the distance is exact in
  double precision. First, \<^verbatim>\<open>dist < best_dist\<close> is tested before the test on the absolute
  difference: a never-played candidate at distance 1 and a candidate played in June 2024
  at distance \<open>1 - 1 / 2 ^ 20\<close> differ by less than a millionth, yet the played one is
  returned when it is examined second and the never-played one when it is examined
  first. Second, of two candidates at the same distance 1, one played in January 2024
  and one in March 2024, the one played in March is returned when the closer candidate
  stands between them: the closer one displaces the first, and is displaced by the
  third for being played later. Third, the tie-break replaces \<^verbatim>\<open>best\<close> and leaves
  \<^verbatim>\<open>best_dist\<close> as it was: after the candidate played in March, at distance 1, has
  replaced the closer one, a never-played candidate at distance \<open>1 + 1 / 2 ^ 24\<close>, within
  the epsilon of the best, is compared with \<open>1 - 1 / 2 ^ 20\<close> and passed over.
\<close>

theorem closer_played_beats_never_played:
  "select_best_match ex_numpy ex_fromisoformat [1, 0, 0, 0, 0]
     [ex_never_played, ex_played_closer] =
     Inr (Some (''music/b.mp3'', Finite (1048575 / 1048576), Some (Naive 1717200000))) \<and>
   select_best_match ex_numpy ex_fromisoformat [1, 0, 0, 0, 0]
     [ex_played_closer, ex_never_played] =
     Inr (Some (''music/a.mp3'', Finite 1, None)) \<and>
   float_near ex_numpy (Finite 1) (Finite (1048575 / 1048576)) \<and>
   select_best_match ex_numpy ex_fromisoformat [1, 0, 0, 0, 0]
     [ex_played_january, ex_played_closer, ex_played_march] =
     Inr (Some (''music/w.mp3'', Finite 1, Some (Naive 1709251200))) \<and>
   select_best_match ex_numpy ex_fromisoformat [1, 0, 0, 0, 0]
     [ex_played_closer, ex_played_march, ex_never_farther] =
     Inr (Some (''music/w.mp3'', Finite 1, Some (Naive 1709251200))) \<and>
   float_near ex_numpy (Finite (16777217 / 16777216)) (Finite 1)"
  by (simp add: select_best_match_def ex_never_played_def ex_played_closer_def
      ex_played_january_def ex_played_march_def ex_never_farther_def cosine_examples
      float_near_def DISTANCE_THRESHOLD_def EPSILON_def parse_last_played_def
      ex_fromisoformat_def Let_def)
    (simp add: ex_numpy_def)

text \<open>
  C8, as the claim states it, fails: the new count is computed in Python and bound to
  the UPDATE, and a count that does not fit a signed 64-bit integer makes the UPDATE
  raise OverflowError. With a row for the winner whose count is \<open>2 ^ 63 - 1\<close> the winner
  is reported and the table is left as it was.
\<close>

theorem full_count_is_not_incremented:
  "ex_history_full ''music/c.mp3'' =
     Some \<lparr>play_count = Some (2 ^ 63 - 1), last_played = Some ''2024-01-01 00:00:00''\<rparr> \<and>
   nexttrack_main ex_numpy ex_fromisoformat ''2024-06-01 00:00:00'' ex_tracks ex_history_full
     ''music/a.mp3'' =
     (Winner (''music/c.mp3'', Finite 1, Some (Naive 1704067200)) (Some OverflowError),
      ex_history_full)"
  by (simp add: ex_history_full_run) (simp add: ex_history_full_def)

text \<open>
  C8, amended. The play-history table after a run is the table before it, except when a
  winner is reported, the table has a row for the winner's path and the row's old count
  (null counting as 0) plus one fits a signed 64-bit integer: then that row's play count
  is the old count plus one and its last-played text is the current time, and no other
  row changes. A reported winner comes with an error exactly when the row exists and
  the new count does not fit; the error is OverflowError and the table is unchanged.
  When the reference track loads and every candidate of the pool lies below the
  near-duplicate threshold (in particular when the pool is empty), the run reports that
  there is no suitable match and the table is unchanged.
\<close>

theorem select_next_play_history:
  assumes run: "nexttrack_main np fi now tbl lib p = (res, lib')"
  shows "lib' =
           (case res of
              Winner (winner, score, lp) None \<Rightarrow>
                (case lib winner of
                   None \<Rightarrow> lib
                 | Some row \<Rightarrow>
                     lib(winner \<mapsto>
                           row\<lparr>play_count :=
                                 Some ((case play_count row of None \<Rightarrow> 0 | Some n \<Rightarrow> n) + 1),
                               last_played := Some now\<rparr>))
            | _ \<Rightarrow> lib) \<and>
         (\<forall>winner score lp err. res = Winner (winner, score, lp) err \<longrightarrow>
            err = (case lib winner of
                     None \<Rightarrow> None
                   | Some row \<Rightarrow>
                       if int64 ((case play_count row of None \<Rightarrow> 0 | Some n \<Rightarrow> n) + 1)
                       then None else Some OverflowError)) \<and>
         ((\<exists>emb mbid title.
              load_input_track tbl p = Inr (emb, mbid, title) \<and>
              (\<forall>c \<in> set (load_candidates tbl lib p mbid title).
                 \<exists>d. cosine_distance np emb (fst (snd c)) = Inr d \<and>
                     float_less d DISTANCE_THRESHOLD))
          \<longrightarrow> res = NoMatch \<and> lib' = lib)"
proof (intro conjI)
  from run show "lib' =
           (case res of
              Winner (winner, score, lp) None \<Rightarrow>
                (case lib winner of
                   None \<Rightarrow> lib
                 | Some row \<Rightarrow>
                     lib(winner \<mapsto>
                           row\<lparr>play_count :=
                                 Some ((case play_count row of None \<Rightarrow> 0 | Some n \<Rightarrow> n) + 1),
                               last_played := Some now\<rparr>))
            | _ \<Rightarrow> lib)"
    unfolding nexttrack_main_def update_play_info_def
    by (auto simp: Let_def split: sum.splits option.splits prod.splits if_splits)
next
  from run show "\<forall>winner score lp err. res = Winner (winner, score, lp) err \<longrightarrow>
            err = (case lib winner of
                     None \<Rightarrow> None
                   | Some row \<Rightarrow>
                       if int64 ((case play_count row of None \<Rightarrow> 0 | Some n \<Rightarrow> n) + 1)
                       then None else Some OverflowError)"
    unfolding nexttrack_main_def update_play_info_def
    by (auto simp: Let_def split: sum.splits option.splits prod.splits if_splits)
next
  show "(\<exists>emb mbid title.
              load_input_track tbl p = Inr (emb, mbid, title) \<and>
              (\<forall>c \<in> set (load_candidates tbl lib p mbid title).
                 \<exists>d. cosine_distance np emb (fst (snd c)) = Inr d \<and>
                     float_less d DISTANCE_THRESHOLD))
          \<longrightarrow> res = NoMatch \<and> lib' = lib"
  proof
    assume "\<exists>emb mbid title.
              load_input_track tbl p = Inr (emb, mbid, title) \<and>
              (\<forall>c \<in> set (load_candidates tbl lib p mbid title).
                 \<exists>d. cosine_distance np emb (fst (snd c)) = Inr d \<and>
                     float_less d DISTANCE_THRESHOLD)"
    then obtain emb mbid title where inp: "load_input_track tbl p = Inr (emb, mbid, title)"
      and low: "\<forall>c \<in> set (load_candidates tbl lib p mbid title).
                 \<exists>d. cosine_distance np emb (fst (snd c)) = Inr d \<and>
                     float_less d DISTANCE_THRESHOLD"
      by blast
    have "select_best_match np fi emb (load_candidates tbl lib p mbid title) = Inr None"
      unfolding select_best_match_def select_loop_skips [OF low] by simp
    with inp run show "res = NoMatch \<and> lib' = lib"
      by (simp add: nexttrack_main_def)
  qed
qed

theorem select_next_play_history_witness:
  "nexttrack_main ex_numpy ex_fromisoformat ''2024-06-01 00:00:00'' ex_near_duplicate ex_history
     ''music/a.mp3'' = (NoMatch, ex_history) \<and>
   ex_history ''music/c.mp3'' =
     Some \<lparr>play_count = Some 2, last_played = Some ''2024-01-01 00:00:00''\<rparr> \<and>
   snd (nexttrack_main ex_numpy ex_fromisoformat ''2024-06-01 00:00:00'' ex_tracks ex_history
          ''music/a.mp3'') =
     ex_history(''music/c.mp3'' \<mapsto>
        \<lparr>play_count = Some 3, last_played = Some ''2024-06-01 00:00:00''\<rparr>)"
proof -
  have low: "\<exists>emb mbid title.
      load_input_track ex_near_duplicate ''music/a.mp3'' = Inr (emb, mbid, title) \<and>
      (\<forall>c \<in> set (load_candidates ex_near_duplicate ex_history ''music/a.mp3'' mbid title).
         \<exists>d. cosine_distance ex_numpy emb (fst (snd c)) = Inr d \<and>
             float_less d DISTANCE_THRESHOLD)"
    by (simp add: ex_near_duplicate_input ex_near_duplicate_candidates cosine_examples
        DISTANCE_THRESHOLD_def)
  obtain res lib' where r:
    "nexttrack_main ex_numpy ex_fromisoformat ''2024-06-01 00:00:00'' ex_near_duplicate
       ex_history ''music/a.mp3'' = (res, lib')"
    by (cases "nexttrack_main ex_numpy ex_fromisoformat ''2024-06-01 00:00:00''
                 ex_near_duplicate ex_history ''music/a.mp3''") simp
  from select_next_play_history [OF r] low have first: "res = NoMatch \<and> lib' = ex_history"
    by blast
  have row: "ex_history ''music/c.mp3'' =
     Some \<lparr>play_count = Some 2, last_played = Some ''2024-01-01 00:00:00''\<rparr>"
    by (simp add: ex_history_def)
  from select_next_play_history [OF ex_tracks_run]
  have second: "snd (nexttrack_main ex_numpy ex_fromisoformat ''2024-06-01 00:00:00'' ex_tracks
          ex_history ''music/a.mp3'') =
     ex_history(''music/c.mp3'' \<mapsto>
        \<lparr>play_count = Some 3, last_played = Some ''2024-06-01 00:00:00''\<rparr>)"
    by (simp add: ex_tracks_run)
  from r first row second show ?thesis by simp
qed

text \<open>
  C10. For a reference track of the store with an embedding whose file name, without
  the extension, has no alphanumeric character, the normalized title is empty, the
  candidate pool is empty, and the run reports that there is no suitable match and
  leaves the play-history table as it is. The hypothesis asks less than the claim does:
  that the name has no ASCII letter or digit and neither of the two characters that
  \<^verbatim>\<open>lower\<close> turns into one, the Kelvin sign and the capital I with a dot above, which
  are letters themselves.
\<close>

theorem empty_title_no_match:
  assumes ref: "map_of tbl p = Some ref" and emb: "embedding ref = Some emb"
    and bare: "no_alphanumerics (strip_mp3 (split_last CHR ''/'' p))"
  shows "normalize_string (strip_mp3 (split_last CHR ''/'' p)) = [] \<and>
         load_candidates tbl lib p (track_mbid ref) (strip_mp3 (split_last CHR ''/'' p)) = [] \<and>
         nexttrack_main np fi now tbl lib p = (NoMatch, lib)"
proof -
  have n: "normalize_string (strip_mp3 (split_last CHR ''/'' p)) = []"
    by (rule normalize_string_no_alphanumerics [OF bare])
  have c: "load_candidates tbl lib p (track_mbid ref) (strip_mp3 (split_last CHR ''/'' p)) = []"
    by (rule load_candidates_empty_title [OF n])
  have "nexttrack_main np fi now tbl lib p = (NoMatch, lib)"
    by (simp add: nexttrack_main_def load_input_track_def ref emb c select_best_match_def)
  with n c show ?thesis by simp
qed

theorem empty_title_no_match_witness:
  "no_alphanumerics (strip_mp3 (split_last CHR ''/'' ''music/---.mp3'')) \<and>
   normalize_string (strip_mp3 (split_last CHR ''/'' ''music/---.mp3'')) = [] \<and>
   load_candidates ex_tracks ex_history ''music/---.mp3'' None
     (strip_mp3 (split_last CHR ''/'' ''music/---.mp3'')) = [] \<and>
   nexttrack_main ex_numpy ex_fromisoformat ''2024-06-01 00:00:00'' ex_tracks ex_history
     ''music/---.mp3'' = (NoMatch, ex_history)"
proof -
  have r: "map_of ex_tracks ''music/---.mp3'' = Some (ex_track None [1, 0])"
    by (simp add: ex_tracks_def)
  have e: "embedding (ex_track None [1, 0]) = Some [1, 0]"
    by (simp add: ex_track_def)
  have b: "no_alphanumerics (strip_mp3 (split_last CHR ''/'' ''music/---.mp3''))"
    by code_simp
  have m: "track_mbid (ex_track None [1, 0]) = None"
    by (simp add: ex_track_def)
  from empty_title_no_match [OF r e b, of ex_history ex_numpy ex_fromisoformat
      "''2024-06-01 00:00:00''"] b m
  show ?thesis by simp
qed

section \<open>Auxiliary facts about repeated runs\<close>

lemma query_musicbrainz_hit:
  assumes "set select_columns \<subseteq> set (cache_columns s)"
    and "map_of (mbid_cache s) mbid = Some e"
    and "truthy_str (recording_json e)"
  shows "query_musicbrainz w mbid s = Inr ((cached_genre e, cached_year e, cached_album_type e), s)"
  using assms by (simp add: query_musicbrainz_def)

lemma settled_printed [simp]: "settled (s\<lparr>printed := evs\<rparr>) p = settled s p"
  by (simp add: settled_def cong: option.case_cong)

lemma settled_idle:
  assumes "settled s p"
  shows "\<exists>flag. process_file w p s = Inr (s\<lparr>printed := printed s @ [FileStatus p [flag]]\<rparr>)"
proof -
  from assms obtain row where row: "map_of (tracks s) p = Some row"
    by (auto simp: settled_def split: option.splits)
  show ?thesis
  proof (cases "needs_lookup row")
    case False
    from process_file_complete [OF row False] show ?thesis by blast
  next
    case True
    with assms row obtain e where cols: "set select_columns \<subseteq> set (cache_columns s)"
      and e: "map_of (mbid_cache s) (the (track_mbid row)) = Some e"
      and payload: "truthy_str (recording_json e)"
      and g: "truthy_str (cached_genre e) \<longrightarrow> truthy_str (genre row)"
      and y: "truthy_int (cached_year e) \<longrightarrow> truthy_int (year row)"
      and t: "truthy_str (cached_album_type e) \<longrightarrow> truthy_str (album_type row)"
      by (auto simp: settled_def split: option.splits)
    note q = query_musicbrainz_hit [OF cols e payload, of w]
    from g y t
    have "\<not> (truthy_str (cached_genre e) \<and> \<not> truthy_str (genre row) \<or>
             truthy_int (cached_year e) \<and> \<not> truthy_int (year row) \<or>
             truthy_str (cached_album_type e) \<and> \<not> truthy_str (album_type row))"
      by blast
    with process_file_lookup_eq [OF row True q refl refl refl]
    have "process_file w p s = Inr (s\<lparr>printed := printed s @ [FileStatus p [NoNewMetadata]]\<rparr>)"
      by simp
    then show ?thesis by blast
  qed
qed

lemma settled_process_all:
  assumes "\<forall>p \<in> set ps. settled s p"
  shows "\<exists>evs. process_all w ps s = Inr (s\<lparr>printed := printed s @ evs\<rparr>)"
  using assms
proof (induction ps arbitrary: s)
  case Nil
  have "s = s\<lparr>printed := printed s @ []\<rparr>" by simp
  then show ?case by (metis process_all.simps(1))
next
  case (Cons p ps)
  from Cons.prems have "settled s p" by simp
  from settled_idle [OF this] obtain flag where
    step: "process_file w p s = Inr (s\<lparr>printed := printed s @ [FileStatus p [flag]]\<rparr>)"
    by blast
  let ?s1 = "s\<lparr>printed := printed s @ [FileStatus p [flag]]\<rparr>"
  from Cons.prems have "\<forall>q \<in> set ps. settled ?s1 q" by simp
  from Cons.IH [OF this] obtain evs where
    "process_all w ps ?s1 = Inr (?s1\<lparr>printed := printed ?s1 @ evs\<rparr>)" by blast
  with step have "process_all w (p # ps) s = Inr (s\<lparr>printed := printed s @ (FileStatus p [flag] # evs)\<rparr>)"
    by simp
  then show ?case by blast
qed

lemma process_file_cases [consumes 1, case_names complete lookup new]:
  assumes run: "process_file w p s = Inr s'"
  obtains
    (complete) row where "map_of (tracks s) p = Some row" "\<not> needs_lookup row"
      "s' = s\<lparr>printed := printed s @ [FileStatus p [ExistingComplete]]\<rparr>"
  | (lookup) row g y t s1 where "map_of (tracks s) p = Some row" "needs_lookup row"
      "query_musicbrainz w (the (track_mbid row)) s = Inr ((g, y, t), s1)"
      "s' = (if (truthy_str g \<and> \<not> truthy_str (genre row)) \<or>
               (truthy_int y \<and> \<not> truthy_int (year row)) \<or>
               (truthy_str t \<and> \<not> truthy_str (album_type row)) then
                  s1\<lparr>tracks :=
                        update_track p
                          (if truthy_str g \<and> \<not> truthy_str (genre row) then g else genre row,
                           if truthy_int y \<and> \<not> truthy_int (year row) then y else year row,
                           if truthy_str t \<and> \<not> truthy_str (album_type row) then t
                           else album_type row)
                          (tracks s1),
                      sql_writes := sql_writes s1 @ [UpdateTrack p],
                      printed := printed s1 @
                        [FileStatus p [MetadataUpdated
                           (if truthy_str g \<and> \<not> truthy_str (genre row) then g else None)
                           (if truthy_int y \<and> \<not> truthy_int (year row) then y else None)
                           (if truthy_str t \<and> \<not> truthy_str (album_type row) then t
                            else None)]]\<rparr>
                else s1\<lparr>printed := printed s1 @ [FileStatus p [NoNewMetadata]]\<rparr>)"
  | (new) mbid a rg s0 g y t s1 where "map_of (tracks s) p = None"
      "get_mbids w p s = ((mbid, a, rg), s0)"
      "(if truthy_str mbid then query_musicbrainz w (the mbid) s0
        else Inr ((None, None, None), s0)) = Inr ((g, y, t), s1)"
      "s' = s1\<lparr>tracks := tracks s1 @
                      [(p, \<lparr>track_mbid = mbid, artist_mbid = a, release_group_mbid = rg,
                            genre = g, year = y, album_type = t, embedding = None\<rparr>)],
                   sql_writes := sql_writes s1 @ [InsertTrack p],
                   printed := printed s1 @ [FileStatus p [NewAdded g y t]]\<rparr>"
proof (cases "map_of (tracks s) p")
  case None
  obtain mbid a rg s0 where ids: "get_mbids w p s = ((mbid, a, rg), s0)"
    by (metis prod_cases3 surj_pair)
  show ?thesis
  proof (cases "if truthy_str mbid then query_musicbrainz w (the mbid) s0
                else Inr ((None, None, None), s0)")
    case (Inl e)
    from process_file_new_error [OF None ids Inl] run show ?thesis by simp
  next
    case (Inr res)
    obtain g y t s1 where res: "res = ((g, y, t), s1)" by (metis prod_cases3 surj_pair)
    from process_file_new_eq [OF None ids Inr [unfolded res]] run
    show ?thesis using new [OF None ids Inr [unfolded res]] by simp
  qed
next
  case (Some row)
  show ?thesis
  proof (cases "needs_lookup row")
    case False
    from process_file_complete [OF Some False, of w] run
    show ?thesis using complete [OF Some False] by simp
  next
    case True
    show ?thesis
    proof (cases "query_musicbrainz w (the (track_mbid row)) s")
      case (Inl e)
      from process_file_lookup_error [OF Some True Inl] run show ?thesis by simp
    next
      case (Inr res)
      obtain g y t s1 where res: "res = ((g, y, t), s1)" by (metis prod_cases3 surj_pair)
      from process_file_lookup_eq [OF Some True Inr [unfolded res] refl refl refl] run
      show ?thesis using lookup [OF Some True Inr [unfolded res]] by simp
    qed
  qed
qed

lemma query_musicbrainz_cache_kept:
  assumes q: "query_musicbrainz w m s = Inr (r, s1)"
    and e: "map_of (mbid_cache s) m' = Some e" and payload: "truthy_str (recording_json e)"
  shows "map_of (mbid_cache s1) m' = Some e"
proof -
  from query_musicbrainz_outcome [OF q]
  consider "s1 = s"
    | "fresh_lookup w m s = (r, s1)"
      "\<forall>e. map_of (mbid_cache s) m = Some e \<longrightarrow> \<not> truthy_str (recording_json e)"
    by blast
  then show ?thesis
  proof cases
    case 1
    with e show ?thesis by simp
  next
    case 2
    with e payload have "m' \<noteq> m" by auto
    from fresh_lookup_outcome [OF 2(1)]
    consider "mbid_cache s1 = mbid_cache s"
      | v where "mbid_cache s1 = AList.update m v (mbid_cache s)"
      by blast
    then show ?thesis
      using e \<open>m' \<noteq> m\<close> by cases (simp_all add: update_conv')
  qed
qed

lemma query_musicbrainz_settles:
  assumes q: "query_musicbrainz w m s = Inr ((g, y, t), s1)"
    and ok: "\<forall>m'. QueryFailed m' \<notin> set (printed s1)"
  shows "set select_columns \<subseteq> set (cache_columns s1) \<and>
         (\<exists>e. map_of (mbid_cache s1) m = Some e \<and> truthy_str (recording_json e) \<and>
              cached_genre e = g \<and> cached_year e = y \<and> cached_album_type e = t)"
proof -
  have cols: "set select_columns \<subseteq> set (cache_columns s1)"
    using query_musicbrainz_outcome [OF q] query_musicbrainz_tracks(2) [OF q] by simp
  from query_musicbrainz_outcome [OF q]
  consider e where "s1 = s" "map_of (mbid_cache s) m = Some e" "truthy_str (recording_json e)"
      "(g, y, t) = (cached_genre e, cached_year e, cached_album_type e)"
    | "fresh_lookup w m s = ((g, y, t), s1)"
    by blast
  then show ?thesis
  proof cases
    case 1
    with cols show ?thesis by auto
  next
    case 2
    from fresh_lookup_outcome [OF 2] ok
    obtain payload where "payload \<noteq> []"
      "mbid_cache s1 =
         AList.update m \<lparr>cached_genre = g, cached_year = y, cached_album_type = t,
                         recording_json = Some payload\<rparr> (mbid_cache s)"
      by auto
    with cols show ?thesis by (simp add: update_conv' truthy_str_def)
  qed
qed

lemma process_file_printed:
  assumes "process_file w p s = Inr s'"
  shows "\<exists>evs. printed s' = printed s @ evs"
  using assms
proof (cases rule: process_file_cases)
  case (complete row)
  then show ?thesis by simp
next
  case (lookup row g y t s1)
  from query_musicbrainz_printed [OF lookup(3)] obtain evs where
    "printed s1 = printed s @ evs" by blast
  with lookup(4) show ?thesis by (simp split: if_splits)
next
  case (new mbid a rg s0 g y t s1)
  from get_mbids_fields(6) [OF new(2)] obtain evs0 where e0: "printed s0 = printed s @ evs0"
    by blast
  have "\<exists>evs. printed s1 = printed s0 @ evs"
  proof (cases "truthy_str mbid")
    case True
    with new(3) query_musicbrainz_printed [of w "the mbid" s0 "(g, y, t)" s1]
    show ?thesis by simp
  next
    case False
    with new(3) show ?thesis by simp
  qed
  with e0 new(4) show ?thesis by auto
qed

lemma process_all_printed:
  assumes "process_all w ps s = Inr s'"
  shows "\<exists>evs. printed s' = printed s @ evs"
  using assms
proof (induction ps arbitrary: s)
  case Nil
  then show ?case by simp
next
  case (Cons p ps)
  from Cons.prems obtain s1 where step: "process_file w p s = Inr s1"
    and rest: "process_all w ps s1 = Inr s'"
    by (auto split: sum.splits)
  from process_file_printed [OF step] Cons.IH [OF rest] show ?case by auto
qed

lemma process_file_frame:
  assumes run: "process_file w p s = Inr s'"
  shows "cache_columns s' = cache_columns s"
    and "q \<noteq> p \<Longrightarrow> map_of (tracks s') q = map_of (tracks s) q"
    and "map_of (mbid_cache s) m = Some e \<Longrightarrow> truthy_str (recording_json e) \<Longrightarrow>
         map_of (mbid_cache s') m = Some e"
proof -
  have "cache_columns s' = cache_columns s \<and>
        (q \<noteq> p \<longrightarrow> map_of (tracks s') q = map_of (tracks s) q) \<and>
        (map_of (mbid_cache s) m = Some e \<longrightarrow> truthy_str (recording_json e) \<longrightarrow>
         map_of (mbid_cache s') m = Some e)"
    using run
  proof (cases rule: process_file_cases)
    case (complete row)
    then show ?thesis by simp
  next
    case (lookup row g y t s1)
    note q = lookup(3)
    from query_musicbrainz_tracks [OF q] query_musicbrainz_cache_kept [OF q, of m e] lookup(4)
    show ?thesis by (auto simp: map_of_update_track split: if_splits)
  next
    case (new mbid a rg s0 g y t s1)
    note ids = get_mbids_fields [OF new(2)]
    have "tracks s1 = tracks s0 \<and> cache_columns s1 = cache_columns s0 \<and>
          (map_of (mbid_cache s0) m = Some e \<longrightarrow> truthy_str (recording_json e) \<longrightarrow>
           map_of (mbid_cache s1) m = Some e)"
    proof (cases "truthy_str mbid")
      case True
      with new(3) have q: "query_musicbrainz w (the mbid) s0 = Inr ((g, y, t), s1)" by simp
      from query_musicbrainz_tracks [OF q] query_musicbrainz_cache_kept [OF q, of m e]
      show ?thesis by simp
    next
      case False
      with new(3) show ?thesis by simp
    qed
    with ids(1-3) new(1,4) show ?thesis
      by (simp add: map_of_append_new del: map_of_append)
  qed
  then show "cache_columns s' = cache_columns s"
    and "q \<noteq> p \<Longrightarrow> map_of (tracks s') q = map_of (tracks s) q"
    and "map_of (mbid_cache s) m = Some e \<Longrightarrow> truthy_str (recording_json e) \<Longrightarrow>
         map_of (mbid_cache s') m = Some e"
    by simp_all
qed

lemma settled_kept:
  assumes st: "settled s q" and run: "process_file w p s = Inr s'"
  shows "settled s' q"
proof (cases "q = p")
  case True
  from settled_idle [OF st [unfolded True], of w] run st True show ?thesis by auto
next
  case False
  from st obtain row where row: "map_of (tracks s) q = Some row"
    by (auto simp: settled_def split: option.splits)
  have row': "map_of (tracks s') q = Some row"
    using process_file_frame(2) [OF run False] row by simp
  show ?thesis
  proof (cases "needs_lookup row")
    case False
    with row' show ?thesis by (simp add: settled_def)
  next
    case True
    with st row obtain e where cols: "set select_columns \<subseteq> set (cache_columns s)"
      and e: "map_of (mbid_cache s) (the (track_mbid row)) = Some e"
      and payload: "truthy_str (recording_json e)"
      and rest: "truthy_str (cached_genre e) \<longrightarrow> truthy_str (genre row)"
        "truthy_int (cached_year e) \<longrightarrow> truthy_int (year row)"
        "truthy_str (cached_album_type e) \<longrightarrow> truthy_str (album_type row)"
      by (auto simp: settled_def split: option.splits)
    from process_file_frame(1) [OF run] process_file_frame(3) [OF run e payload]
      cols payload rest row'
    show ?thesis by (simp add: settled_def)
  qed
qed

lemma settled_established:
  assumes run: "process_file w p s = Inr s'"
    and ok: "\<forall>m. QueryFailed m \<notin> set (printed s')"
  shows "settled s' p"
  using run
proof (cases rule: process_file_cases)
  case (complete row)
  then show ?thesis by (simp add: settled_def)
next
  case (lookup row g y t s1)
  note q = lookup(3)
  have tr: "tracks s1 = tracks s" using query_musicbrainz_tracks(1) [OF q] .
  from lookup(4) have pr: "\<exists>evs. printed s' = printed s1 @ evs"
    and same: "cache_columns s' = cache_columns s1" "mbid_cache s' = mbid_cache s1"
    by (simp_all split: if_splits)
  from pr ok have ok1: "\<forall>m. QueryFailed m \<notin> set (printed s1)" by auto
  from query_musicbrainz_settles [OF q ok1] obtain e where
    cols: "set select_columns \<subseteq> set (cache_columns s1)"
    and e: "map_of (mbid_cache s1) (the (track_mbid row)) = Some e"
      "truthy_str (recording_json e)"
      "cached_genre e = g" "cached_year e = y" "cached_album_type e = t"
    by blast
  let ?row' = "row\<lparr>genre := (if truthy_str g \<and> \<not> truthy_str (genre row) then g else genre row),
                   year := (if truthy_int y \<and> \<not> truthy_int (year row) then y else year row),
                   album_type := (if truthy_str t \<and> \<not> truthy_str (album_type row) then t
                                  else album_type row)\<rparr>"
  have look: "map_of (tracks s') p = Some ?row'"
  proof (cases "(truthy_str g \<and> \<not> truthy_str (genre row)) \<or>
               (truthy_int y \<and> \<not> truthy_int (year row)) \<or>
               (truthy_str t \<and> \<not> truthy_str (album_type row))")
    case True
    with lookup(4) tr lookup(1) show ?thesis by (simp add: map_of_update_track)
  next
    case False
    with lookup(4) tr lookup(1) show ?thesis by auto
  qed
  have "truthy_str g \<longrightarrow> truthy_str (genre ?row')" "truthy_int y \<longrightarrow> truthy_int (year ?row')"
    "truthy_str t \<longrightarrow> truthy_str (album_type ?row')" "track_mbid ?row' = track_mbid row"
    by simp_all
  with look cols e same show ?thesis
    by (simp add: settled_def)
next
  case (new mbid a rg s0 g y t s1)
  note ids = get_mbids_fields [OF new(2)]
  let ?row = "\<lparr>track_mbid = mbid, artist_mbid = a, release_group_mbid = rg,
               genre = g, year = y, album_type = t, embedding = None\<rparr>"
  from new(4) have pr: "\<exists>evs. printed s' = printed s1 @ evs"
    and same: "cache_columns s' = cache_columns s1" "mbid_cache s' = mbid_cache s1"
    by simp_all
  from pr ok have ok1: "\<forall>m. QueryFailed m \<notin> set (printed s1)" by auto
  show ?thesis
  proof (cases "truthy_str mbid")
    case True
    with new(3) have q: "query_musicbrainz w (the mbid) s0 = Inr ((g, y, t), s1)" by simp
    have "tracks s1 = tracks s" using query_musicbrainz_tracks(1) [OF q] ids(1) by simp
    with new(1,4) have look: "map_of (tracks s') p = Some ?row"
      by (simp add: map_of_append_new del: map_of_append)
    from query_musicbrainz_settles [OF q ok1] look same show ?thesis
      by (auto simp: settled_def)
  next
    case False
    with new(3) have "tracks s1 = tracks s" using ids(1) by simp
    with new(1,4) have look: "map_of (tracks s') p = Some ?row"
      by (simp add: map_of_append_new del: map_of_append)
    with False show ?thesis by (simp add: settled_def needs_lookup_def)
  qed
qed

lemma process_all_settles:
  assumes "process_all w ps s = Inr s'"
    and "\<forall>m. QueryFailed m \<notin> set (printed s')"
    and "\<forall>q \<in> Q. settled s q"
  shows "\<forall>q \<in> Q \<union> set ps. settled s' q"
  using assms
proof (induction ps arbitrary: s Q)
  case Nil
  then show ?case by simp
next
  case (Cons p ps)
  from Cons.prems(1) obtain s1 where step: "process_file w p s = Inr s1"
    and rest: "process_all w ps s1 = Inr s'"
    by (auto split: sum.splits)
  from process_all_printed [OF rest] Cons.prems(2)
  have ok1: "\<forall>m. QueryFailed m \<notin> set (printed s1)" by auto
  have "\<forall>q \<in> insert p Q. settled s1 q"
    using settled_established [OF step ok1] settled_kept [OF _ step] Cons.prems(3) by auto
  from Cons.IH [OF rest Cons.prems(2) this] show ?case by auto
qed

lemma settled_connect [simp]: "settled (connect (database.truncate s)) p = settled s p"
  by (simp add: settled_def connect_def database.extend_def database.truncate_def
      cong: option.case_cong)

lemma ex_clean_run: "build_db_main ex_online ex_listing (Some ex_payload_db) = Inr ex_clean_pass"
  by code_simp

section \<open>Properties of repeated runs\<close>

text \<open>
  C5, as the claim states it, fails: a lookup that failed in the first pass left no
  cache entry, so the second pass over the same directory and the store of the first
  asks the lookup service again.
\<close>

theorem failed_lookup_is_retried:
  "build_db_main ex_offline ex_listing (Some ex_payload_db) = Inr ex_failed_pass \<and>
   build_db_main ex_offline ex_listing (Some (database.truncate ex_failed_pass)) =
     Inr ex_failed_again \<and>
   remote_log ex_failed_again = [RecordingLookup ''m1'']"
  by code_simp

text \<open>
  C5, amended. After a completed run of build\_db in which no lookup failed (no line
  \<^verbatim>\<open>MusicBrainz query failed\<close> was printed), a further run over the same directory on the
  database the first one left, in any world, completes, leaves the table of tracks and
  the cache as they were, executes no SQL write and makes no call to the lookup service.
\<close>

theorem rerun_after_clean_run_is_idle:
  assumes first: "build_db_main w listing existing = Inr s1"
    and clean: "\<forall>mbid. QueryFailed mbid \<notin> set (printed s1)"
  shows "\<exists>s2. build_db_main w' listing (Some (database.truncate s1)) = Inr s2 \<and>
              tracks s2 = tracks s1 \<and> cache_columns s2 = cache_columns s1 \<and>
              mbid_cache s2 = mbid_cache s1 \<and> remote_log s2 = [] \<and> sql_writes s2 = []"
proof -
  from first have "process_all w (mp3_paths listing) (connect (create_db existing)) = Inr s1"
    by (simp add: build_db_main_def walk_and_process_def)
  from process_all_settles [OF this clean, of "{}"]
  have "\<forall>p \<in> set (mp3_paths listing). settled (connect (database.truncate s1)) p"
    by simp
  from settled_process_all [OF this, of w'] obtain evs where
    "process_all w' (mp3_paths listing) (connect (database.truncate s1)) =
       Inr ((connect (database.truncate s1))\<lparr>printed := printed (connect (database.truncate s1)) @ evs\<rparr>)"
    by blast
  then show ?thesis
    by (simp add: build_db_main_def walk_and_process_def create_db_def connect_def
        database.extend_def database.truncate_def)
qed

theorem rerun_after_clean_run_is_idle_witness:
  "build_db_main ex_online ex_listing (Some ex_payload_db) = Inr ex_clean_pass \<and>
   (\<exists>s2. build_db_main ex_offline ex_listing (Some (database.truncate ex_clean_pass)) = Inr s2 \<and>
         tracks s2 = tracks ex_clean_pass \<and> cache_columns s2 = cache_columns ex_clean_pass \<and>
         mbid_cache s2 = mbid_cache ex_clean_pass \<and> remote_log s2 = [] \<and> sql_writes s2 = [])"
proof -
  have clean: "\<forall>mbid. QueryFailed mbid \<notin> set (printed ex_clean_pass)"
    by (simp add: ex_clean_pass_def)
  from rerun_after_clean_run_is_idle [OF ex_clean_run clean, of ex_offline] ex_clean_run
  show ?thesis by (rule conjI [rotated])
qed

end
